theory Spec2Isabelle
  imports Main "HOL-Library.Finite_Map" "HOL-Library.Word" "HOL-Library.Signed_Division"
begin

section \<open>Go values, time and the client's data model\<close>

text \<open>
  The client of \<^verbatim>\<open>mixpanel.go\<close> shapes three kinds of calls (\<^verbatim>\<open>Track\<close>,
  \<^verbatim>\<open>Update\<close>, \<^verbatim>\<open>Alias\<close>) into a parameter map and hands it to \<^verbatim>\<open>send\<close>.
  Strings are Go strings (byte sequences), hence \<^typ>\<open>string\<close>.

  A value of type \<^verbatim>\<open>interface{}\<close> as the client builds or receives it. A
  \<^verbatim>\<open>map[string]interface{}\<close> is a finite map, or the nil map (\<open>None\<close>);
  \<open>VOther\<close> stands for every Go value the client itself never builds (floats,
  slices, structs, channels, ...), identified by an opaque tag.
\<close>

datatype gvalue =
    VNil
  | VBool bool
  | VInt64 int
  | VString string
  | VMap "(string, gvalue) fmap option"
  | VOther nat

text \<open>
  \<^verbatim>\<open>time.Time\<close>, as the Go library keeps it (\<^verbatim>\<open>time.go\<close>): a word \<^verbatim>\<open>wall\<close> of one
  bit \<open>hasMonotonic\<close>, 33 bits of seconds and 30 bits of nanoseconds, and an
  \<^verbatim>\<open>int64\<close> \<^verbatim>\<open>ext\<close>. With \<open>hasMonotonic\<close>, the 33 bits count the seconds since the
  start of 1885 and \<open>ext\<close> is the reading of the monotonic clock, in nanoseconds;
  without it, the 33 bits are zero and \<open>ext\<close> counts the seconds since the start of
  year 1. The fields of \<^verbatim>\<open>wall\<close> are kept apart here; the location is left out.
  An \<^verbatim>\<open>int64\<close> is a 64-bit word, read as signed by \<open>sint\<close>; its arithmetic wraps.
\<close>

type_synonym int64 = "64 word"
type_synonym Duration = int64

record Time =
  hasMonotonic :: bool
  wall_sec :: nat
  wall_nsec :: nat
  ext :: int64

definition wallToInternal :: int64 where
  "wallToInternal = 59453308800"

definition unixToInternal :: int64 where
  "unixToInternal = 62135596800"

definition internalToUnix :: int64 where
  "internalToUnix = - unixToInternal"

definition Hour :: Duration where
  "Hour = 3600000000000"

definition nsec :: "Time \<Rightarrow> nat" where
  "nsec t = wall_nsec t"

definition sec :: "Time \<Rightarrow> int64" where
  "sec t = (if hasMonotonic t then wallToInternal + of_nat (wall_sec t) else ext t)"

definition unixSec :: "Time \<Rightarrow> int64" where
  "unixSec t = sec t + internalToUnix"

text \<open>\<^verbatim>\<open>Time.Unix\<close>: the \<^verbatim>\<open>int64\<close> it returns, as an integer.\<close>

definition Unix :: "Time \<Rightarrow> int" where
  "Unix t = sint (unixSec t)"

definition stripMono :: "Time \<Rightarrow> Time" where
  "stripMono t =
     (if hasMonotonic t then t\<lparr>hasMonotonic := False, wall_sec := 0, ext := sec t\<rparr> else t)"

text \<open>
  \<^verbatim>\<open>addSec\<close>: the seconds stay packed in \<^verbatim>\<open>wall\<close> while they fit the 33 bits;
  otherwise the monotonic reading is dropped and \<^verbatim>\<open>ext\<close> takes the sum, held at the
  ends of the range when it overflows.
\<close>

definition addSec :: "Time \<Rightarrow> int64 \<Rightarrow> Time" where
  "addSec t d =
     (let dsec = of_nat (wall_sec t) + d in
      if hasMonotonic t \<and> 0 \<le> sint dsec \<and> sint dsec \<le> 2 ^ 33 - 1
      then t\<lparr>wall_sec := unat dsec\<rparr>
      else
        (let t = stripMono t; sum = ext t + d in
         if (sint (ext t) < sint sum) = (0 < sint d) then t\<lparr>ext := sum\<rparr>
         else if 0 < sint d then t\<lparr>ext := 2 ^ 63 - 1\<rparr>
         else t\<lparr>ext := - (2 ^ 63 - 1)\<rparr>))"

text \<open>
  \<^verbatim>\<open>Time.Add\<close>: \<^verbatim>\<open>d / 1e9\<close> and \<^verbatim>\<open>d % 1e9\<close> round towards zero (\<open>sdiv\<close>,
  \<open>smod\<close>); a monotonic reading that would leave the range is dropped.
\<close>

definition Add :: "Time \<Rightarrow> Duration \<Rightarrow> Time" where
  "Add t d =
     (let dsec = word_of_int (sint d sdiv 1000000000) :: int64;
          n = int (nsec t) + sint d smod 1000000000;
          (dsec, n) = (if 1000000000 \<le> n then (dsec + 1, n - 1000000000)
                       else if n < 0 then (dsec - 1, n + 1000000000)
                       else (dsec, n));
          t = addSec (t\<lparr>wall_nsec := nat n\<rparr>) dsec
      in if hasMonotonic t then
           (let te = ext t + d in
            if sint d < 0 \<and> sint (ext t) < sint te \<or> 0 < sint d \<and> sint te < sint (ext t)
            then stripMono t
            else t\<lparr>ext := te\<rparr>)
         else t)"

text \<open>
  \<^verbatim>\<open>Time.Before\<close>: by the monotonic readings when both times have one, by seconds
  and nanoseconds otherwise.
\<close>

definition Before :: "Time \<Rightarrow> Time \<Rightarrow> bool" where
  "Before t u =
     (if hasMonotonic t \<and> hasMonotonic u then sint (ext t) < sint (ext u)
      else sint (sec t) < sint (sec u) \<or> sec t = sec u \<and> nsec t < nsec u)"

text \<open>\<^verbatim>\<open>time.Unix(sec, nsec)\<close>: the time with these Unix seconds and nanoseconds.\<close>

definition time_Unix :: "int64 \<Rightarrow> int64 \<Rightarrow> Time" where
  "time_Unix s n =
     (let (s, n) =
        (if sint n < 0 \<or> 1000000000 \<le> sint n then
           (let q = word_of_int (sint n sdiv 1000000000) :: int64;
                s = s + q;
                n = n - q * 1000000000
            in if sint n < 0 then (s - 1, n + 1000000000) else (s, n))
         else (s, n))
      in \<lparr>hasMonotonic = False, wall_sec = 0, wall_nsec = unat n, ext = s + unixToInternal\<rparr>)"

text \<open>
  A \<^verbatim>\<open>*time.Time\<close> is nil (\<open>None\<close>) or the address of a time value; the
  environment below reads addresses. \<^verbatim>\<open>var IgnoreTime *time.Time = &time.Time{}\<close>
  is one fixed address, and the code compares against it by pointer identity.
\<close>

type_synonym addr = nat
type_synonym TimePtr = "addr option"

definition IgnoreTime :: TimePtr where
  "IgnoreTime = Some 0"

record MixpanelError =
  URL :: string
  Message :: string
  HttpStatus :: int
  Code :: int

record Event =
  IP :: string
  Timestamp :: TimePtr
  Properties :: "(string, gvalue) fmap option"

record Update =
  IP :: string
  Timestamp :: TimePtr
  Operation :: string
  Properties :: "(string, gvalue) fmap option"

section \<open>The collaborators: HTTP, JSON, clock\<close>

text \<open>
  An \<^verbatim>\<open>*http.Request\<close> as far as \<^verbatim>\<open>send\<close> determines it: the method, the URL
  string it was built from, and the basic-auth credentials set on it.
\<close>

record Request =
  Method :: string
  ReqURL :: string
  BasicAuth :: "(string \<times> string) option"

text \<open>
  An \<^verbatim>\<open>*http.Response\<close>: the status code, and what \<^verbatim>\<open>ioutil.ReadAll(resp.Body)\<close>
  gives, the read error's message (\<open>Inl\<close>) or the bytes of the body (\<open>Inr\<close>).
\<close>

record Response =
  StatusCode :: int
  Body :: "string + string"

text \<open>
  \<^verbatim>\<open>(*http.Client).Do\<close>: the transport error's message, or a response.
\<close>

type_synonym HttpClient = "Request \<Rightarrow> string + Response"

record mixpanel =
  Client :: "HttpClient option"
  Token :: string
  ApiKey :: string
  ApiSecret :: string
  ApiURL :: string

text \<open>
  What \<^verbatim>\<open>json.Unmarshal(body, serverErr)\<close> does to a \<^verbatim>\<open>*MixpanelError\<close>: it may
  return an error and it may assign the two fields that carry a JSON name,
  \<^verbatim>\<open>Message\<close> (\<^verbatim>\<open>json:"error"\<close>) and \<^verbatim>\<open>Code\<close> (\<^verbatim>\<open>json:"status"\<close>). The fields
  tagged \<^verbatim>\<open>json:"-"\<close> (\<^verbatim>\<open>URL\<close>, \<^verbatim>\<open>HttpStatus\<close>) are never assigned.
\<close>

record Unmarshaled =
  um_error :: "string option"
  um_Message :: "string option"
  um_Code :: "int option"

text \<open>
  The library calls whose results the code only consumes are the environment of a call:
  \<^item> \<open>json_Marshal\<close>: \<^verbatim>\<open>json.Marshal\<close>, the error's message or the encoded bytes;
  \<^item> \<open>json_Unmarshal\<close>: \<^verbatim>\<open>json.Unmarshal\<close> into a \<^verbatim>\<open>*MixpanelError\<close>;
  \<^item> \<open>url_error\<close>: the error with which \<^verbatim>\<open>http.NewRequest\<close> rejects a URL, if any;
  \<^item> \<open>time_Now\<close>: \<^verbatim>\<open>time.Now()\<close>;
  \<^item> \<open>deref\<close>: the time value stored at an address.
\<close>

record env =
  json_Marshal :: "gvalue \<Rightarrow> string + string"
  json_Unmarshal :: "string \<Rightarrow> Unmarshaled"
  url_error :: "string \<Rightarrow> string option"
  time_Now :: Time
  deref :: "addr \<Rightarrow> Time"

text \<open>
  The errors \<^verbatim>\<open>send\<close> returns: the error of \<^verbatim>\<open>json.Marshal\<close> as it is (known by
  its message), or a \<^verbatim>\<open>*MixpanelError\<close>.
\<close>

datatype go_error =
    MarshalError string
  | MpError MixpanelError

text \<open>A call returns, or panics (a nil pointer dereference).\<close>

datatype 'a outcome =
    Returns 'a
  | Panics string

text \<open>
  What a call of the client does: the lines it logs (the text given to
  \<^verbatim>\<open>log.Println\<close>), the requests it hands to the transport, and how it ends
  (\<open>Returns None\<close> is the nil error).
\<close>

record run =
  logged :: "string list"
  issued :: "Request list"
  outcome :: "go_error option outcome"

definition nil_dereference :: string where
  "nil_dereference = ''runtime error: invalid memory address or nil pointer dereference''"

section \<open>Standard base64\<close>

text \<open>
  \<^verbatim>\<open>base64.StdEncoding\<close> of the Go library (RFC 4648, section 4): the alphabet
  \<open>encodeStd\<close>, the padding character \<open>=\<close>, and every three bytes (24 bits) written
  as four characters (6 bits each); a last group of one or two bytes is filled with zero
  bits and padded.
\<close>

definition encodeStd :: string where
  "encodeStd = ''ABCDEFGHIJKLMNOPQRSTUVWXYZabcdefghijklmnopqrstuvwxyz0123456789+/''"

definition StdPadding :: char where
  "StdPadding = CHR ''=''"

definition encode :: "nat \<Rightarrow> char" where
  "encode i = encodeStd ! i"

fun EncodeToString :: "string \<Rightarrow> string" where
  "EncodeToString (a # b # c # src) =
     (let x = of_char a; y = of_char b; z = of_char c in
      encode (x div 4) # encode (x mod 4 * 16 + y div 16) #
      encode (y mod 16 * 4 + z div 64) # encode (z mod 64) # EncodeToString src)"
| "EncodeToString [a, b] =
     (let x = of_char a; y = of_char b in
      [encode (x div 4), encode (x mod 4 * 16 + y div 16), encode (y mod 16 * 4), StdPadding])"
| "EncodeToString [a] =
     (let x = of_char a in
      [encode (x div 4), encode (x mod 4 * 16), StdPadding, StdPadding])"
| "EncodeToString [] = []"

text \<open>
  Decoding, for the round trip: the index of a character in the alphabet, and groups of
  four characters back to bytes. It is strict: padding only closes the last group, and the
  bits that fill a last group must be zero.
\<close>

definition decode :: "char \<Rightarrow> nat option" where
  "decode c = map_of (zip encodeStd [0..<64]) c"

fun DecodeString :: "string \<Rightarrow> string option" where
  "DecodeString [] = Some []"
| "DecodeString (c1 # c2 # c3 # c4 # rest) =
     (case (decode c1, decode c2) of
        (Some i1, Some i2) \<Rightarrow>
          if c3 = StdPadding then
            (if c4 = StdPadding \<and> rest = [] \<and> i2 mod 16 = 0
             then Some [char_of (i1 * 4 + i2 div 16)] else None)
          else
            (case decode c3 of
               None \<Rightarrow> None
             | Some i3 \<Rightarrow>
                 if c4 = StdPadding then
                   (if rest = [] \<and> i3 mod 4 = 0
                    then Some [char_of (i1 * 4 + i2 div 16),
                               char_of (i2 mod 16 * 16 + i3 div 4)]
                    else None)
                 else
                   (case decode c4 of
                      None \<Rightarrow> None
                    | Some i4 \<Rightarrow>
                        (case DecodeString rest of
                           None \<Rightarrow> None
                         | Some bs \<Rightarrow>
                             Some (char_of (i1 * 4 + i2 div 16) #
                                   char_of (i2 mod 16 * 16 + i3 div 4) #
                                   char_of (i3 mod 4 * 64 + i4) # bs))))
      | _ \<Rightarrow> None)"
| "DecodeString _ = None"

section \<open>The send protocol\<close>

definition to64 :: "mixpanel \<Rightarrow> string \<Rightarrow> string" where
  "to64 m data = EncodeToString data"

text \<open>
  The request URL, as \<^verbatim>\<open>send\<close> composes it from the marshalled bytes (lines 163 to
  170 of \<^verbatim>\<open>mixpanel.go\<close>).
\<close>

definition reqUrl :: "mixpanel \<Rightarrow> string \<Rightarrow> string \<Rightarrow> bool \<Rightarrow> string" where
  "reqUrl m eventType data autoGeolocate =
     (let u = ApiURL m @ ''/'' @ eventType @ ''?data='' @ to64 m data;
          u = (if autoGeolocate then u @ ''&ip=1'' else u)
      in u @ ''&verbose=1'')"

definition wrapErr :: "string \<Rightarrow> string \<Rightarrow> go_error" where
  "wrapErr url err = MpError \<lparr>URL = url, Message = err, HttpStatus = 0, Code = 0\<rparr>"

text \<open>
  \<^verbatim>\<open>http.NewRequest(method, url, nil)\<close>: the nil request and an error when the URL is
  rejected, the request otherwise.
\<close>

definition http_NewRequest :: "env \<Rightarrow> string \<Rightarrow> string \<Rightarrow> string + Request" where
  "http_NewRequest env method url =
     (case url_error env url of
        Some err \<Rightarrow> Inl err
      | None \<Rightarrow> Inr \<lparr>Method = method, ReqURL = url, BasicAuth = None\<rparr>)"

definition SetBasicAuth :: "Request \<Rightarrow> string \<Rightarrow> string \<Rightarrow> Request" where
  "SetBasicAuth req username password = req\<lparr>BasicAuth := Some (username, password)\<rparr>"

text \<open>
  The \<^verbatim>\<open>serverErr\<close> of \<^verbatim>\<open>send\<close> once the body has been looked at: a non-empty
  body is unmarshalled into it, and an unmarshalling error replaces the message.
\<close>

definition serverErr :: "env \<Rightarrow> string \<Rightarrow> Response \<Rightarrow> string \<Rightarrow> MixpanelError" where
  "serverErr env url resp body =
     (let e = \<lparr>URL = url, Message = [], HttpStatus = StatusCode resp, Code = 0\<rparr> in
      if length body > 0 then
        (let r = json_Unmarshal env body;
             e = (case um_Message r of None \<Rightarrow> e | Some s \<Rightarrow> e\<lparr>Message := s\<rparr>);
             e = (case um_Code r of None \<Rightarrow> e | Some c \<Rightarrow> e\<lparr>Code := c\<rparr>)
         in case um_error r of None \<Rightarrow> e | Some err \<Rightarrow> e\<lparr>Message := err\<rparr>)
      else e)"

text \<open>
  \<^verbatim>\<open>send\<close> (lines 156 to 209). The error of \<^verbatim>\<open>http.NewRequest\<close> is dropped, so a
  rejected URL leaves the request nil and \<^verbatim>\<open>req.SetBasicAuth\<close> panics; so does
  \<^verbatim>\<open>m.Client.Do\<close> on a nil client.
\<close>

definition send :: "env \<Rightarrow> mixpanel \<Rightarrow> string \<Rightarrow> gvalue \<Rightarrow> bool \<Rightarrow> run" where
  "send env m eventType params autoGeolocate =
     (case json_Marshal env params of
        Inl err \<Rightarrow> \<lparr>logged = [], issued = [], outcome = Returns (Some (MarshalError err))\<rparr>
      | Inr data \<Rightarrow>
          (let url = reqUrl m eventType data autoGeolocate in
           case http_NewRequest env ''POST'' url of
             Inl err \<Rightarrow> \<lparr>logged = [], issued = [], outcome = Panics nil_dereference\<rparr>
           | Inr req0 \<Rightarrow>
               (let req = SetBasicAuth req0 ''YOUR_API_SECRET'' (ApiSecret m) in
                case Client m of
                  None \<Rightarrow> \<lparr>logged = [], issued = [], outcome = Panics nil_dereference\<rparr>
                | Some do \<Rightarrow>
                    (case do req of
                       Inl err \<Rightarrow>
                         \<lparr>logged = [], issued = [req], outcome = Returns (Some (wrapErr url err))\<rparr>
                     | Inr resp \<Rightarrow>
                         (case Body resp of
                            Inl bodyErr \<Rightarrow>
                              \<lparr>logged = [], issued = [req],
                               outcome = Returns (Some (wrapErr url bodyErr))\<rparr>
                          | Inr body \<Rightarrow>
                              (let se = serverErr env url resp body in
                               if Code se \<noteq> 1
                               then \<lparr>logged = [], issued = [req],
                                     outcome = Returns (Some (MpError se))\<rparr>
                               else \<lparr>logged = [], issued = [req],
                                     outcome = Returns None\<rparr>))))))"

section \<open>Alias, Track, Update\<close>

definition Alias_params :: "mixpanel \<Rightarrow> string \<Rightarrow> string \<Rightarrow> gvalue" where
  "Alias_params m distinctId newId =
     (let props = fmupd ''alias'' (VString newId)
                    (fmupd ''distinct_id'' (VString distinctId)
                      (fmupd ''token'' (VString (Token m)) fmempty))
      in VMap (Some (fmupd ''properties'' (VMap (Some props))
                       (fmupd ''event'' (VString ''$create_alias'') fmempty))))"

definition Alias :: "env \<Rightarrow> mixpanel \<Rightarrow> string \<Rightarrow> string \<Rightarrow> run" where
  "Alias env m distinctId newId =
     send env m ''track'' (Alias_params m distinctId newId) False"

text \<open>
  \<^verbatim>\<open>Track\<close>, in the three parts its body has: the endpoint name (\<^verbatim>\<open>eventType\<close>),
  the property map (\<^verbatim>\<open>props\<close>, ranging over a nil \<^verbatim>\<open>Properties\<close> adds nothing),
  and the line it logs.
\<close>

definition Track_eventType :: "env \<Rightarrow> Event \<Rightarrow> string" where
  "Track_eventType env e =
     (case Event.Timestamp e of
        None \<Rightarrow> ''track''
      | Some a \<Rightarrow>
          if Before (deref env a) (Add (time_Now env) (Hour * 24 * (- 5)))
          then ''import'' else ''track'')"

definition Track_logged :: "env \<Rightarrow> string \<Rightarrow> Event \<Rightarrow> string list" where
  "Track_logged env eventName e =
     (case Event.Timestamp e of
        None \<Rightarrow> []
      | Some a \<Rightarrow>
          if Before (deref env a) (Add (time_Now env) (Hour * 24 * (- 5)))
          then [''Mixpanel - timestamp is older than 5 days, using import eventType '' @ eventName]
          else [])"

definition Track_props :: "env \<Rightarrow> mixpanel \<Rightarrow> string \<Rightarrow> Event \<Rightarrow> (string, gvalue) fmap" where
  "Track_props env m distinctId e =
     (let props = fmupd ''distinct_id'' (VString distinctId)
                    (fmupd ''token'' (VString (Token m)) fmempty);
          props = (if Event.IP e \<noteq> [] then fmupd ''ip'' (VString (Event.IP e)) props else props);
          props = (case Event.Timestamp e of
                     None \<Rightarrow> props
                   | Some a \<Rightarrow> fmupd ''time'' (VInt64 (Unix (deref env a))) props)
      in case Event.Properties e of
           None \<Rightarrow> props
         | Some custom \<Rightarrow> props ++\<^sub>f custom)"

definition Track_params :: "env \<Rightarrow> mixpanel \<Rightarrow> string \<Rightarrow> string \<Rightarrow> Event \<Rightarrow> gvalue" where
  "Track_params env m distinctId eventName e =
     VMap (Some (fmupd ''properties'' (VMap (Some (Track_props env m distinctId e)))
                   (fmupd ''event'' (VString eventName) fmempty)))"

text \<open>\<^verbatim>\<open>e\<close> is a pointer: reading \<^verbatim>\<open>e.IP\<close> of a nil event panics.\<close>

definition Track :: "env \<Rightarrow> mixpanel \<Rightarrow> string \<Rightarrow> string \<Rightarrow> Event option \<Rightarrow> run" where
  "Track env m distinctId eventName ep =
     (case ep of
        None \<Rightarrow> \<lparr>logged = [], issued = [], outcome = Panics nil_dereference\<rparr>
      | Some e \<Rightarrow>
          (let autoGeolocate = (Event.IP e = []);
               r = send env m (Track_eventType env e)
                     (Track_params env m distinctId eventName e) autoGeolocate
           in r\<lparr>logged := Track_logged env eventName e @ logged r\<rparr>))"

text \<open>
  \<^verbatim>\<open>Update\<close> (lines 130 to 150): the parameter map, with the entry of the operation
  name assigned last, and the call of \<^verbatim>\<open>send\<close>. \<^verbatim>\<open>u\<close> is a pointer as well.
\<close>

definition Update_params :: "env \<Rightarrow> mixpanel \<Rightarrow> string \<Rightarrow> Update \<Rightarrow> (string, gvalue) fmap" where
  "Update_params env m distinctId u =
     (let params = fmupd ''$distinct_id'' (VString distinctId)
                     (fmupd ''$token'' (VString (Token m)) fmempty);
          params = (if Update.IP u \<noteq> [] then fmupd ''$ip'' (VString (Update.IP u)) params
                    else params);
          params = (if Update.Timestamp u = IgnoreTime
                    then fmupd ''$ignore_time'' (VBool True) params
                    else (case Update.Timestamp u of
                            None \<Rightarrow> params
                          | Some a \<Rightarrow> fmupd ''$time'' (VInt64 (Unix (deref env a))) params))
      in fmupd (Operation u) (VMap (Update.Properties u)) params)"

definition Update :: "env \<Rightarrow> mixpanel \<Rightarrow> string \<Rightarrow> Update option \<Rightarrow> run" where
  "Update env m distinctId up =
     (case up of
        None \<Rightarrow> \<lparr>logged = [], issued = [], outcome = Panics nil_dereference\<rparr>
      | Some u \<Rightarrow>
          (let autoGeolocate = (Update.IP u = [])
           in send env m ''engage'' (VMap (Some (Update_params env m distinctId u)))
                autoGeolocate))"

definition NewFromClient ::
    "HttpClient option \<Rightarrow> string \<Rightarrow> string \<Rightarrow> string \<Rightarrow> string \<Rightarrow> mixpanel" where
  "NewFromClient c token key secret apiURL =
     \<lparr>Client = c, Token = token, ApiKey = key, ApiSecret = secret,
      ApiURL = (if apiURL = [] then ''https://api.mixpanel.com'' else apiURL)\<rparr>"

section \<open>Times, compared\<close>

text \<open>
  What the library maintains of a time: nanoseconds below a second, seconds within the
  33 bits.
\<close>

definition well_formed :: "Time \<Rightarrow> bool" where
  "well_formed t = (wall_nsec t < 1000000000 \<and> wall_sec t < 2 ^ 33)"

text \<open>
  The seconds since year 1 are not so low that \<^verbatim>\<open>Unix\<close> wraps around: \<open>Unix t\<close> is
  these seconds less 62135596800. The times that \<^verbatim>\<open>time.Unix\<close> makes of Unix seconds
  above \<open>2 ^ 63 - 1 - 62135596800\<close> are the ones left out.
\<close>

definition unwrapped :: "Time \<Rightarrow> bool" where
  "unwrapped t = (- (2 ^ 63) + 62135596800 \<le> sint (sec t))"

text \<open>The Unix time in nanoseconds.\<close>

definition unix_nanos :: "Time \<Rightarrow> int" where
  "unix_nanos t = Unix t * 1000000000 + int (nsec t)"

text \<open>
  The monotonic reading of the clock is still there five days (432000 seconds) earlier:
  the seconds stay within the 33 bits and the reading within 64.
\<close>

definition mono_survives :: "Time \<Rightarrow> bool" where
  "mono_survives now =
     (hasMonotonic now \<and> 432000 \<le> wall_sec now \<and>
      - (2 ^ 63) \<le> sint (ext now) - 432000000000000)"

text \<open>
  More than five days (432000000000000 nanoseconds) before: on the monotonic clock when
  both readings are there, on the wall clock otherwise.
\<close>

definition older :: "Time \<Rightarrow> Time \<Rightarrow> bool" where
  "older ts now =
     (if hasMonotonic ts \<and> mono_survives now
      then 432000000000000 < sint (ext now) - sint (ext ts)
      else 432000000000000 < unix_nanos now - unix_nanos ts)"

section \<open>Reading a request URL\<close>

text \<open>
  What a receiver of the request finds in its URL (RFC 3986): the fragment starts at the
  first \<open>#\<close>; before it, the query starts after the first \<open>?\<close>; the query is a
  sequence of fragments separated by \<open>&\<close>, each a key, or a key, \<open>=\<close> and a value.
  Nothing is percent-decoded.
\<close>

fun split_on :: "char \<Rightarrow> string \<Rightarrow> string list" where
  "split_on sep [] = [[]]"
| "split_on sep (c # cs) =
     (if c = sep then [] # split_on sep cs
      else (case split_on sep cs of
              [] \<Rightarrow> [[c]]
            | w # ws \<Rightarrow> (c # w) # ws))"

definition url_query :: "string \<Rightarrow> string option" where
  "url_query url =
     (let u = takeWhile (\<lambda>c. c \<noteq> CHR ''#'') url in
      if CHR ''?'' \<in> set u then Some (tl (dropWhile (\<lambda>c. c \<noteq> CHR ''?'') u)) else None)"

definition query_fragments :: "string \<Rightarrow> string list" where
  "query_fragments url =
     (case url_query url of
        None \<Rightarrow> []
      | Some q \<Rightarrow> split_on (CHR ''&'') q)"

definition query_param :: "string \<Rightarrow> string \<Rightarrow> string option" where
  "query_param key url =
     (case filter (\<lambda>f. takeWhile (\<lambda>c. c \<noteq> CHR ''='') f = key) (query_fragments url) of
        [] \<Rightarrow> None
      | f # _ \<Rightarrow> Some (drop (Suc (length key)) f))"

text \<open>A base URL with neither a query nor a fragment of its own.\<close>

definition plain_base :: "string \<Rightarrow> bool" where
  "plain_base url = (CHR ''?'' \<notin> set url \<and> CHR ''#'' \<notin> set url)"

section \<open>A scenario\<close>

text \<open>
  One concrete environment, for running the definitions. The clock reads
  2016-03-10T00:00:00Z, ten days into the monotonic clock. Address 0 is \<^verbatim>\<open>IgnoreTime\<close>
  and holds the zero time. Address 1 holds \<^verbatim>\<open>time.Unix(1457014673, 0)\<close>,
  2016-03-03T14:17:53Z, more than five days before. Address 3 holds
  \<^verbatim>\<open>time.Unix(math.MaxInt64, 0)\<close>. Address 4 holds a reading of the clock taken one day
  before on the monotonic clock, when the wall clock read 2016-03-01T00:00:00Z. Every
  other address holds \<^verbatim>\<open>time.Unix(1457395200, 0)\<close>, 2016-03-08T00:00:00Z, two days
  before.
\<close>

definition scenario_Now :: Time where
  "scenario_Now =
     \<lparr>hasMonotonic = True, wall_sec = 4139856000, wall_nsec = 0, ext = 864000000000000\<rparr>"

definition scenario_deref :: "addr \<Rightarrow> Time" where
  "scenario_deref a =
     (if a = 0 then \<lparr>hasMonotonic = False, wall_sec = 0, wall_nsec = 0, ext = 0\<rparr>
      else if a = 1 then time_Unix 1457014673 0
      else if a = 3 then time_Unix 9223372036854775807 0
      else if a = 4 then
        \<lparr>hasMonotonic = True, wall_sec = 4139078400, wall_nsec = 0, ext = 777600000000000\<rparr>
      else time_Unix 1457395200 0)"

text \<open>
  \<^verbatim>\<open>json.Marshal\<close> in the scenario: the texts it gives for nil and for the parameter
  maps of three calls (an alias of \<open>a\<close> to \<open>b\<close>, an event \<open>Sign In\<close>, a \<open>$set\<close>
  update, all with token \<open>t\<close>); a channel is an unsupported type, and no other value
  is marshalled in the scenario.
\<close>

definition alias_value :: gvalue where
  "alias_value =
     VMap (Some (fmupd ''properties''
       (VMap (Some (fmupd ''alias'' (VString ''b'')
                     (fmupd ''distinct_id'' (VString ''a'')
                       (fmupd ''token'' (VString ''t'') fmempty)))))
       (fmupd ''event'' (VString ''$create_alias'') fmempty)))"

definition alias_json :: string where
  \<open>alias_json =
     ''{"event":"$create_alias","properties":{"alias":"b","distinct_id":"a","token":"t"}}''\<close>

definition track_value :: gvalue where
  "track_value =
     VMap (Some (fmupd ''properties''
       (VMap (Some (fmupd ''from'' (VString ''email'')
                     (fmupd ''distinct_id'' (VString ''a'')
                       (fmupd ''token'' (VString ''t'') fmempty)))))
       (fmupd ''event'' (VString ''Sign In'') fmempty)))"

definition track_json :: string where
  \<open>track_json =
     ''{"event":"Sign In","properties":{"distinct_id":"a","from":"email","token":"t"}}''\<close>

definition update_value :: gvalue where
  "update_value =
     VMap (Some (fmupd ''$set''
       (VMap (Some (fmupd ''custom_field'' (VString ''cool!'') fmempty)))
       (fmupd ''$ignore_time'' (VBool True)
         (fmupd ''$distinct_id'' (VString ''a'')
           (fmupd ''$token'' (VString ''t'') fmempty)))))"

definition update_json :: string where
  \<open>update_json =
     ''{"$distinct_id":"a","$ignore_time":true,"$set":{"custom_field":"cool!"},"$token":"t"}''\<close>

definition entry :: "gvalue \<Rightarrow> string \<Rightarrow> gvalue option" where
  "entry v k = (case v of VMap (Some ps) \<Rightarrow> fmlookup ps k | _ \<Rightarrow> None)"

definition scenario_Marshal :: "gvalue \<Rightarrow> string + string" where
  "scenario_Marshal v =
     (if v = VNil then Inr ''null''
      else if entry v ''event'' = Some (VString ''$create_alias'') \<and> v = alias_value
        then Inr alias_json
      else if entry v ''event'' = Some (VString ''Sign In'') \<and> v = track_value
        then Inr track_json
      else if entry v ''$ignore_time'' = Some (VBool True) \<and> v = update_value
        then Inr update_json
      else Inl ''json: unsupported type: chan int'')"

text \<open>The inverse of \<open>scenario_Marshal\<close> on the texts above.\<close>

definition scenario_decode :: "string \<Rightarrow> gvalue option" where
  "scenario_decode s =
     (if s = ''null'' then Some VNil
      else if s = alias_json then Some alias_value
      else if s = track_json then Some track_value
      else if s = update_json then Some update_value
      else None)"

text \<open>
  \<^verbatim>\<open>json.Unmarshal\<close> in the scenario: the two bodies the service answers with, and
  a syntax error for anything else.
\<close>

definition accepted_body :: string where
  \<open>accepted_body = ''{"error":null,"status":1}''\<close>

definition rejected_body :: string where
  \<open>rejected_body = ''{"error":"token, missing or empty","status":0}''\<close>

definition scenario_Unmarshal :: "string \<Rightarrow> Unmarshaled" where
  "scenario_Unmarshal body =
     (if body = accepted_body
        then \<lparr>um_error = None, um_Message = None, um_Code = Some 1\<rparr>
      else if body = rejected_body
        then \<lparr>um_error = None, um_Message = Some ''token, missing or empty'', um_Code = Some 0\<rparr>
      else \<lparr>um_error = Some ''invalid character looking for beginning of value'',
             um_Message = None, um_Code = None\<rparr>)"

text \<open>\<^verbatim>\<open>http.NewRequest\<close> rejects a URL that holds an ASCII control character.\<close>

definition scenario_url_error :: "string \<Rightarrow> string option" where
  "scenario_url_error url =
     (if list_ex (\<lambda>c. (of_char c :: nat) < 32 \<or> (of_char c :: nat) = 127) url
      then Some ''net/url: invalid control character in URL''
      else None)"

text \<open>A base URL with a line feed left at its end.\<close>

definition bad_base :: string where
  "bad_base = ''https://api.mixpanel.com'' @ [CHR 0x0A]"

text \<open>A base URL that has a query of its own.\<close>

definition proxy_base :: string where
  "proxy_base = ''https://proxy.example.com/forward?ip=1&to=''"

definition scenario :: env where
  "scenario =
     \<lparr>json_Marshal = scenario_Marshal, json_Unmarshal = scenario_Unmarshal,
      url_error = scenario_url_error, time_Now = scenario_Now,
      deref = scenario_deref\<rparr>"

text \<open>Transports: one that answers every request alike, one that reaches nobody.\<close>

definition answering :: "Response \<Rightarrow> HttpClient" where
  "answering resp = (\<lambda>req. Inr resp)"

definition unreachable :: HttpClient where
  "unreachable = (\<lambda>req. Inl ''dial tcp 127.0.0.1:80: connect: connection refused'')"

text \<open>
  The calls of the scenario: the service accepts; the event \<open>Sign In\<close> and the \<open>$set\<close>
  update leave the IP empty.
\<close>

definition accepted :: Response where
  "accepted = \<lparr>StatusCode = 200, Body = Inr accepted_body\<rparr>"

definition sign_in :: Event where
  "sign_in =
     \<lparr>Event.IP = [], Event.Timestamp = None,
      Event.Properties = Some (fmupd ''from'' (VString ''email'') fmempty)\<rparr>"

definition set_update :: Update where
  "set_update =
     \<lparr>IP = [], Timestamp = IgnoreTime, Operation = ''$set'',
      Properties = Some (fmupd ''custom_field'' (VString ''cool!'') fmempty)\<rparr>"

text \<open>Two clients with token \<open>t\<close>: one with the default base URL, one behind the proxy.\<close>

definition mp :: mixpanel where
  "mp = NewFromClient (Some (answering accepted)) ''t'' ''k'' ''s'' []"

definition mp_proxy :: mixpanel where
  "mp_proxy = NewFromClient (Some (answering accepted)) ''t'' ''k'' ''s'' proxy_base"

section \<open>Base64: decoding inverts encoding\<close>

text \<open>The alphabet, index by index.\<close>

lemma sextet_all:
  "list_all (\<lambda>i. decode (encode i) = Some i \<and> encode i \<noteq> StdPadding \<and>
                encode i \<in> set encodeStd) [0..<64]"
  by code_simp

lemma sextet:
  assumes "i < 64"
  shows "decode (encode i) = Some i"
    and "encode i \<noteq> StdPadding"
    and "encode i \<in> set encodeStd"
proof -
  from assms have "i \<in> set [0..<64]" by simp
  with sextet_all show "decode (encode i) = Some i"
    and "encode i \<noteq> StdPadding"
    and "encode i \<in> set encodeStd"
    unfolding list_all_iff by blast+
qed

lemma byte_lt: "of_char (c::char) < (256::nat)"
  by simp

text \<open>Six-bit groups of bytes, taken apart and put together again.\<close>

lemma hi2: "y < 256 \<Longrightarrow> (x * 16 + y div 16) div 16 = (x::nat)"
  and lo4: "y < 256 \<Longrightarrow> (x * 16 + y div 16) mod 16 = (y::nat) div 16"
  and hi4: "z < 256 \<Longrightarrow> (y * 4 + z div 64) div 4 = (y::nat)"
  and lo2: "z < 256 \<Longrightarrow> (y * 4 + z div 64) mod 4 = (z::nat) div 64"
  by simp_all

lemma first_lt: "x < 256 \<Longrightarrow> (x::nat) div 4 < 64"
  and second_lt: "y < 256 \<Longrightarrow> (x mod 4) * 16 + (y::nat) div 16 < 64"
  and third_lt: "z < 256 \<Longrightarrow> (y mod 16) * 4 + (z::nat) div 64 < 64"
  and second_last_lt: "(x mod 4) * 16 < (64::nat)"
  and third_last_lt: "(y mod 16) * 4 < (64::nat)"
  and fourth_lt: "z mod 64 < (64::nat)"
  by simp_all

lemmas sextet_bounds =
  first_lt [OF byte_lt] second_lt [OF byte_lt] third_lt [OF byte_lt]
  second_last_lt third_last_lt fourth_lt

lemma nat_byte_div:
  fixes y :: nat
  assumes "y < 256"
  shows "y div 16 div 16 = 0" "y div 64 div 4 = 0"
    "y div 16 mod 16 = y div 16" "y div 64 mod 4 = y div 64"
proof -
  from assms show "y div 16 div 16 = 0" "y div 64 div 4 = 0"
    by (simp_all add: div_mult2_eq [symmetric])
  from assms have "y div 16 < 16" "y div 64 < 4"
    by simp_all
  then show "y div 16 mod 16 = y div 16" "y div 64 mod 4 = y div 64"
    by simp_all
qed

lemmas byte_div [simp] = nat_byte_div [OF byte_lt]

lemma DecodeString_EncodeToString: "DecodeString (EncodeToString src) = Some src"
proof (induction src rule: EncodeToString.induct)
  case (1 a b c src)
  then show ?case
    by (simp add: Let_def sextet sextet_bounds hi2 lo4 hi4 lo2 byte_lt)
next
  case (2 a b)
  then show ?case
    by (simp add: Let_def sextet sextet_bounds hi2 lo4 hi4 lo2 byte_lt)
next
  case (3 a)
  then show ?case
    by (simp add: Let_def sextet sextet_bounds hi2 lo4 hi4 lo2 byte_lt)
next
  case 4
  then show ?case by simp
qed

lemma set_EncodeToString: "set (EncodeToString src) \<subseteq> set encodeStd \<union> {StdPadding}"
  by (induction src rule: EncodeToString.induct)
    (simp_all add: Let_def sextet sextet_bounds)

lemma length_EncodeToString: "length (EncodeToString src) = 4 * ((length src + 2) div 3)"
proof (induction src rule: EncodeToString.induct)
  case (1 a b c src)
  have "(length (a # b # c # src) + 2) div 3 = Suc ((length src + 2) div 3)"
    by simp
  with 1 show ?case
    by (simp only: EncodeToString.simps Let_def list.size) simp
qed (simp_all add: Let_def)

lemma EncodeToString_no_delimiter:
  "CHR ''&'' \<notin> set (EncodeToString src)"
  "CHR ''?'' \<notin> set (EncodeToString src)"
  "CHR ''#'' \<notin> set (EncodeToString src)"
  using set_EncodeToString [of src] by (auto simp: encodeStd_def StdPadding_def)

section \<open>The query of a composed URL\<close>

lemma split_on_none: "sep \<notin> set xs \<Longrightarrow> split_on sep xs = [xs]"
  by (induction xs) auto

lemma split_on_first:
  "sep \<notin> set xs \<Longrightarrow> split_on sep (xs @ sep # ys) = xs # split_on sep ys"
  by (induction xs) auto

lemma dropWhile_first:
  "c \<notin> set xs \<Longrightarrow> dropWhile (\<lambda>x. x \<noteq> c) (xs @ c # ys) = c # ys"
  by (induction xs) auto

lemma url_query_composed:
  assumes "CHR ''?'' \<notin> set pre" "CHR ''#'' \<notin> set pre" "CHR ''#'' \<notin> set q"
  shows "url_query (pre @ CHR ''?'' # q) = Some q"
proof -
  from assms have "takeWhile (\<lambda>c. c \<noteq> CHR ''#'') (pre @ CHR ''?'' # q) = pre @ CHR ''?'' # q"
    by auto
  with assms(1) show ?thesis
    by (simp add: url_query_def dropWhile_first)
qed

lemma query_fragments_reqUrl:
  assumes "plain_base (ApiURL m)" and "eventType \<in> {''track'', ''import'', ''engage''}"
  shows "query_fragments (reqUrl m eventType data autoGeolocate) =
           (''data='' @ EncodeToString data) #
           (if autoGeolocate then [''ip=1'', ''verbose=1''] else [''verbose=1''])"
proof -
  let ?b = "EncodeToString data"
  let ?pre = "ApiURL m @ ''/'' @ eventType"
  let ?tail = "(if autoGeolocate then ''&ip=1'' else []) @ ''&verbose=1''"
  let ?q = "''data='' @ ?b @ ?tail"
  have url: "reqUrl m eventType data autoGeolocate = ?pre @ CHR ''?'' # ?q"
    by (simp add: reqUrl_def to64_def Let_def)
  from assms have pre: "CHR ''?'' \<notin> set ?pre" "CHR ''#'' \<notin> set ?pre"
    by (auto simp: plain_base_def)
  have q: "CHR ''#'' \<notin> set ?q"
    using EncodeToString_no_delimiter(3) [of data] by simp
  have "url_query (?pre @ CHR ''?'' # ?q) = Some ?q"
    using pre q by (rule url_query_composed)
  moreover have "split_on (CHR ''&'') ?q =
      (''data='' @ ?b) # (if autoGeolocate then [''ip=1'', ''verbose=1''] else [''verbose=1''])"
  proof -
    have d: "CHR ''&'' \<notin> set (''data='' @ ?b)"
      using EncodeToString_no_delimiter(1) [of data] by simp
    have "?q = (''data='' @ ?b) @ CHR ''&'' # (if autoGeolocate then ''ip=1&verbose=1'' else ''verbose=1'')"
      by simp
    then have "split_on (CHR ''&'') ?q =
        (''data='' @ ?b) # split_on (CHR ''&'') (if autoGeolocate then ''ip=1&verbose=1'' else ''verbose=1'')"
      using split_on_first [OF d] by simp
    then show ?thesis by simp
  qed
  ultimately show ?thesis
    by (simp only: url query_fragments_def option.case)
qed

lemma query_param_data_reqUrl:
  assumes "plain_base (ApiURL m)" and "eventType \<in> {''track'', ''import'', ''engage''}"
  shows "query_param ''data'' (reqUrl m eventType data autoGeolocate) = Some (EncodeToString data)"
  by (simp add: query_param_def query_fragments_reqUrl [OF assms])

lemma ip_fragment_reqUrl:
  assumes "plain_base (ApiURL m)" and "eventType \<in> {''track'', ''import'', ''engage''}"
  shows "(''ip=1'' \<in> set (query_fragments (reqUrl m eventType data autoGeolocate))) = autoGeolocate"
  by (simp add: query_fragments_reqUrl [OF assms])

section \<open>What send returns\<close>

lemma send_after_request:
  assumes "json_Marshal env params = Inr data"
    and "http_NewRequest env ''POST'' (reqUrl m eventType data autoGeolocate) = Inr req"
    and "Client m = Some do"
  shows "send env m eventType params autoGeolocate =
     (let url = reqUrl m eventType data autoGeolocate;
          rq = SetBasicAuth req ''YOUR_API_SECRET'' (ApiSecret m) in
      case do rq of
        Inl err \<Rightarrow> \<lparr>logged = [], issued = [rq], outcome = Returns (Some (wrapErr url err))\<rparr>
      | Inr resp \<Rightarrow>
          (case Body resp of
             Inl bodyErr \<Rightarrow>
               \<lparr>logged = [], issued = [rq], outcome = Returns (Some (wrapErr url bodyErr))\<rparr>
           | Inr body \<Rightarrow>
               \<lparr>logged = [], issued = [rq],
                outcome = (if Code (serverErr env url resp body) = 1 then Returns None
                           else Returns (Some (MpError (serverErr env url resp body))))\<rparr>))"
  using assms by (simp add: send_def Let_def split: sum.splits)

lemma serverErr_fields:
  "URL (serverErr env url resp body) = url"
  "HttpStatus (serverErr env url resp body) = StatusCode resp"
  "Code (serverErr env url resp body) =
     (if body = [] then 0
      else case um_Code (json_Unmarshal env body) of None \<Rightarrow> 0 | Some c \<Rightarrow> c)"
  "Message (serverErr env url resp body) =
     (if body = [] then []
      else case um_error (json_Unmarshal env body) of
             Some err \<Rightarrow> err
           | None \<Rightarrow> (case um_Message (json_Unmarshal env body) of None \<Rightarrow> [] | Some s \<Rightarrow> s))"
  by (simp_all add: serverErr_def Let_def split: option.splits)

text \<open>
  Claim C1. Once a response has been received and its body read, the \<^verbatim>\<open>Code\<close> of
  \<^verbatim>\<open>serverErr\<close> alone decides: if it is exactly 1, \<^verbatim>\<open>send\<close> returns nil whatever
  the HTTP status code is; otherwise it returns \<^verbatim>\<open>serverErr\<close>, which carries the
  request URL, the HTTP status code received, and the decoded status and message. An
  empty body is not decoded and leaves status 0 and the empty message; when decoding
  fails, the status is what was assigned (0 if nothing was) and the message is the
  decoding error's text.
\<close>

theorem send_status_decides:
  assumes "json_Marshal env params = Inr data"
    and "http_NewRequest env ''POST'' (reqUrl m eventType data autoGeolocate) = Inr req"
    and "Client m = Some do"
    and "do (SetBasicAuth req ''YOUR_API_SECRET'' (ApiSecret m)) = Inr resp"
    and "Body resp = Inr body"
  shows "let se = serverErr env (reqUrl m eventType data autoGeolocate) resp body in
     outcome (send env m eventType params autoGeolocate) =
       (if Code se = 1 then Returns None else Returns (Some (MpError se))) \<and>
     URL se = reqUrl m eventType data autoGeolocate \<and>
     HttpStatus se = StatusCode resp \<and>
     Code se = (if body = [] then 0
                else case um_Code (json_Unmarshal env body) of None \<Rightarrow> 0 | Some c \<Rightarrow> c) \<and>
     Message se =
       (if body = [] then []
        else case um_error (json_Unmarshal env body) of
               Some err \<Rightarrow> err
             | None \<Rightarrow> (case um_Message (json_Unmarshal env body) of None \<Rightarrow> [] | Some s \<Rightarrow> s))"
proof -
  have "outcome (send env m eventType params autoGeolocate) =
      (if Code (serverErr env (reqUrl m eventType data autoGeolocate) resp body) = 1
       then Returns None
       else Returns (Some (MpError (serverErr env (reqUrl m eventType data autoGeolocate) resp body))))"
    using assms(4,5) by (simp add: send_after_request [OF assms(1-3)] Let_def)
  then show ?thesis
    by (simp only: Let_def serverErr_fields)
qed

text \<open>The scenario, field by field.\<close>

lemma scenario_simps:
  "json_Marshal scenario = scenario_Marshal"
  "json_Unmarshal scenario = scenario_Unmarshal"
  "url_error scenario = scenario_url_error"
  "time_Now scenario = scenario_Now"
  "deref scenario = scenario_deref"
  by (simp_all add: scenario_def)

lemma scenario_Unix:
  "Unix scenario_Now = 1457568000"
  "Unix (scenario_deref (Suc 0)) = 1457014673"
  "Unix (scenario_deref 3) = 9223372036854775807"
  "Unix (scenario_deref 4) = 1456790400"
  by (simp_all add: scenario_deref_def scenario_Now_def time_Unix_def Unix_def unixSec_def
      sec_def internalToUnix_def unixToInternal_def wallToInternal_def)

theorem send_status_decides_witness:
  "outcome (send scenario
      (NewFromClient (Some (answering \<lparr>StatusCode = 500, Body = Inr accepted_body\<rparr>))
         ''t'' ''k'' ''s'' [])
      ''track'' VNil False) = Returns None \<and>
   outcome (send scenario
      (NewFromClient (Some (answering \<lparr>StatusCode = 200, Body = Inr rejected_body\<rparr>))
         ''t'' ''k'' ''s'' [])
      ''track'' VNil False) =
     Returns (Some (MpError
       \<lparr>URL = ''https://api.mixpanel.com/track?data=bnVsbA==&verbose=1'',
        Message = ''token, missing or empty'', HttpStatus = 200, Code = 0\<rparr>))"
proof -
  let ?m = "\<lambda>resp. NewFromClient (Some (answering resp)) ''t'' ''k'' ''s'' []"
  let ?url = "''https://api.mixpanel.com/track?data=bnVsbA==&verbose=1''"
  let ?req = "\<lparr>Method = ''POST'', ReqURL = ?url, BasicAuth = None\<rparr>"
  have marshal: "json_Marshal scenario VNil = Inr ''null''"
    by (simp add: scenario_simps scenario_Marshal_def)
  have url: "reqUrl (?m resp) ''track'' ''null'' False = ?url" for resp
    by (simp add: reqUrl_def to64_def NewFromClient_def encode_def encodeStd_def StdPadding_def)
  have req: "http_NewRequest scenario ''POST'' (reqUrl (?m resp) ''track'' ''null'' False) = Inr ?req"
    for resp
    by (simp add: url http_NewRequest_def scenario_simps scenario_url_error_def)
  have client: "Client (?m resp) = Some (answering resp)" for resp
    by (simp add: NewFromClient_def)
  have do: "answering resp (SetBasicAuth ?req ''YOUR_API_SECRET'' (ApiSecret (?m resp))) = Inr resp"
    for resp
    by (simp add: answering_def)
  note a = send_status_decides [OF marshal req client do, of "\<lparr>StatusCode = 500, Body = Inr accepted_body\<rparr>" accepted_body]
  note b = send_status_decides [OF marshal req client do, of "\<lparr>StatusCode = 200, Body = Inr rejected_body\<rparr>" rejected_body]
  show ?thesis
    using a b
    by (simp add: Let_def url serverErr_def scenario_simps scenario_Unmarshal_def
        accepted_body_def rejected_body_def)
qed

text \<open>The call \<^verbatim>\<open>send("track", nil, false)\<close> in the scenario, with the default base URL.\<close>

lemma null_url:
  "reqUrl (NewFromClient c ''t'' ''k'' ''s'' []) ''track'' ''null'' False =
     ''https://api.mixpanel.com/track?data=bnVsbA==&verbose=1''"
  by (simp add: reqUrl_def to64_def NewFromClient_def encode_def encodeStd_def StdPadding_def)

lemma null_request:
  "http_NewRequest scenario ''POST'' (reqUrl (NewFromClient c ''t'' ''k'' ''s'' []) ''track'' ''null'' False) =
     Inr \<lparr>Method = ''POST'', ReqURL = ''https://api.mixpanel.com/track?data=bnVsbA==&verbose=1'',
          BasicAuth = None\<rparr>"
  by (simp add: null_url http_NewRequest_def scenario_simps scenario_url_error_def)

lemma null_marshal: "json_Marshal scenario VNil = Inr ''null''"
  by (simp add: scenario_simps scenario_Marshal_def)

text \<open>
  Claim C7. When the transport fails (\<^verbatim>\<open>Client.Do\<close> returns an error), or a response
  arrives but its body cannot be read, \<^verbatim>\<open>send\<close> returns a \<^verbatim>\<open>MixpanelError\<close> with
  the attempted request URL and the failure's message; its HTTP status (and its code)
  stay zero, also when the response that could not be read had a status code.
\<close>

theorem send_transport_error:
  assumes "json_Marshal env params = Inr data"
    and "http_NewRequest env ''POST'' (reqUrl m eventType data autoGeolocate) = Inr req"
    and "Client m = Some do"
    and "do (SetBasicAuth req ''YOUR_API_SECRET'' (ApiSecret m)) = Inl err \<or>
         (\<exists>resp. do (SetBasicAuth req ''YOUR_API_SECRET'' (ApiSecret m)) = Inr resp \<and>
                 Body resp = Inl err)"
  shows "outcome (send env m eventType params autoGeolocate) =
     Returns (Some (MpError
       \<lparr>URL = reqUrl m eventType data autoGeolocate, Message = err, HttpStatus = 0, Code = 0\<rparr>))"
  using assms(4)
  by (auto simp: send_after_request [OF assms(1-3)] Let_def wrapErr_def)

theorem send_transport_error_witness:
  "outcome (send scenario (NewFromClient (Some unreachable) ''t'' ''k'' ''s'' []) ''track'' VNil False) =
     Returns (Some (MpError
       \<lparr>URL = ''https://api.mixpanel.com/track?data=bnVsbA==&verbose=1'',
        Message = ''dial tcp 127.0.0.1:80: connect: connection refused'',
        HttpStatus = 0, Code = 0\<rparr>)) \<and>
   outcome (send scenario
      (NewFromClient (Some (answering \<lparr>StatusCode = 200, Body = Inl ''unexpected EOF''\<rparr>))
         ''t'' ''k'' ''s'' [])
      ''track'' VNil False) =
     Returns (Some (MpError
       \<lparr>URL = ''https://api.mixpanel.com/track?data=bnVsbA==&verbose=1'',
        Message = ''unexpected EOF'', HttpStatus = 0, Code = 0\<rparr>))"
proof -
  let ?m1 = "NewFromClient (Some unreachable) ''t'' ''k'' ''s'' []"
  let ?eof = "\<lparr>StatusCode = 200, Body = Inl ''unexpected EOF''\<rparr>"
  let ?m2 = "NewFromClient (Some (answering ?eof)) ''t'' ''k'' ''s'' []"
  let ?req = "\<lparr>Method = ''POST'',
    ReqURL = ''https://api.mixpanel.com/track?data=bnVsbA==&verbose=1'', BasicAuth = None\<rparr>"
  have c1: "Client ?m1 = Some unreachable" and c2: "Client ?m2 = Some (answering ?eof)"
    by (simp_all add: NewFromClient_def)
  have a: "unreachable (SetBasicAuth ?req ''YOUR_API_SECRET'' (ApiSecret ?m1)) =
      Inl ''dial tcp 127.0.0.1:80: connect: connection refused'' \<or>
      (\<exists>resp. unreachable (SetBasicAuth ?req ''YOUR_API_SECRET'' (ApiSecret ?m1)) = Inr resp \<and>
         Body resp = Inl ''dial tcp 127.0.0.1:80: connect: connection refused'')"
    by (simp add: unreachable_def)
  have b: "answering ?eof (SetBasicAuth ?req ''YOUR_API_SECRET'' (ApiSecret ?m2)) =
      Inl ''unexpected EOF'' \<or>
      (\<exists>resp. answering ?eof (SetBasicAuth ?req ''YOUR_API_SECRET'' (ApiSecret ?m2)) = Inr resp \<and>
         Body resp = Inl ''unexpected EOF'')"
    by (simp add: answering_def)
  show ?thesis
    using send_transport_error [OF null_marshal null_request c1 a]
      send_transport_error [OF null_marshal null_request c2 b]
    by (simp add: null_url)
qed

text \<open>
  Claim C8. When \<^verbatim>\<open>json.Marshal\<close> of the parameter map fails, \<^verbatim>\<open>send\<close> returns that
  error as it is: not a \<^verbatim>\<open>MixpanelError\<close>, so without a URL; no request URL is composed
  and no request is handed to the transport.
\<close>

theorem send_marshal_error:
  assumes "json_Marshal env params = Inl err"
  shows "send env m eventType params autoGeolocate =
     \<lparr>logged = [], issued = [], outcome = Returns (Some (MarshalError err))\<rparr>"
  using assms by (simp add: send_def)

theorem send_marshal_error_witness:
  "send scenario (NewFromClient (Some unreachable) ''t'' ''k'' ''s'' []) ''track'' (VOther 0) True =
     \<lparr>logged = [], issued = [],
      outcome = Returns (Some (MarshalError ''json: unsupported type: chan int''))\<rparr>"
proof -
  have "json_Marshal scenario (VOther 0) = Inl ''json: unsupported type: chan int''"
    by (simp add: scenario_simps scenario_Marshal_def entry_def)
  then show ?thesis
    by (rule send_marshal_error)
qed

text \<open>
  Claim C10. The error of \<^verbatim>\<open>http.NewRequest\<close> is never looked at: whenever the request
  URL is rejected, the request is nil and \<^verbatim>\<open>req.SetBasicAuth\<close> dereferences it, so
  \<^verbatim>\<open>send\<close> panics instead of returning an error, before anything is sent. In the
  scenario the base URL with a line feed at its end is such a URL.
\<close>

theorem send_request_error_unchecked:
  assumes "json_Marshal env params = Inr data"
    and "http_NewRequest env ''POST'' (reqUrl m eventType data autoGeolocate) = Inl err"
  shows "send env m eventType params autoGeolocate =
     \<lparr>logged = [], issued = [], outcome = Panics nil_dereference\<rparr>"
  using assms by (simp add: send_def Let_def)

theorem send_request_error_unchecked_witness:
  "http_NewRequest scenario ''POST''
      (reqUrl (NewFromClient (Some unreachable) ''t'' ''k'' ''s'' bad_base) ''track'' ''null'' False) =
     Inl ''net/url: invalid control character in URL'' \<and>
   send scenario (NewFromClient (Some unreachable) ''t'' ''k'' ''s'' bad_base) ''track'' VNil False =
     \<lparr>logged = [], issued = [], outcome = Panics nil_dereference\<rparr>"
proof -
  have r: "http_NewRequest scenario ''POST''
      (reqUrl (NewFromClient (Some unreachable) ''t'' ''k'' ''s'' bad_base) ''track'' ''null'' False) =
     Inl ''net/url: invalid control character in URL''"
    by (simp add: http_NewRequest_def scenario_simps scenario_url_error_def reqUrl_def
        NewFromClient_def bad_base_def)
  show ?thesis
    using r send_request_error_unchecked [OF null_marshal r] by simp
qed

section \<open>Five days before the clock\<close>

text \<open>Signed 64-bit arithmetic, exact within the range and wrapping below it.\<close>

lemma five_days_eq: "Hour * 24 * (- 5) = (- 432000000000000 :: int64)"
  by (simp add: Hour_def)

lemma five_days:
  "sint (- 432000000000000 :: int64) = - 432000000000000"
  "(word_of_int (sint (- 432000000000000 :: int64) sdiv 1000000000) :: int64) = - 432000"
  "sint (- 432000000000000 :: int64) smod 1000000000 = 0"
  by (simp_all add: signed_divide_int_def signed_modulo_int_def)

lemma sint_add_exact:
  fixes a b :: int64
  assumes "- (2 ^ 63) \<le> sint a + sint b" "sint a + sint b < 2 ^ 63"
  shows "sint (a + b) = sint a + sint b"
  using assms by (simp add: sint_word_ariths signed_take_bit_int_eq_self)

lemma sint_add_wraps_low:
  fixes a b :: int64
  assumes "sint a + sint b < - (2 ^ 63)"
  shows "sint (a + b) = sint a + sint b + 2 ^ 64"
proof -
  let ?k = "sint a + sint b"
  have lo: "- (2 ^ 64) \<le> ?k"
    using sint_ge [of a] sint_ge [of b] by simp
  have "take_bit 64 (?k + 2 ^ 63) = (?k + 2 ^ 63) mod 2 ^ 64"
    by (simp add: take_bit_eq_mod)
  also have "\<dots> = (?k + 2 ^ 63 + 2 ^ 64) mod 2 ^ 64"
    by (rule mod_add_self2 [symmetric])
  also have "\<dots> = ?k + 2 ^ 63 + 2 ^ 64"
    using lo assms by (intro mod_pos_pos_trivial) simp_all
  finally have "signed_take_bit 63 ?k = ?k + 2 ^ 64"
    by (simp add: signed_take_bit_eq_take_bit_shift)
  then show ?thesis
    by (simp add: sint_word_ariths)
qed

lemma sint_of_nat33: "w < 2 ^ 33 \<Longrightarrow> sint (of_nat w :: int64) = int w"
  by (simp add: signed_of_nat signed_take_bit_int_eq_self)

lemma sint_bounds: "- (2 ^ 63) \<le> sint (a :: int64)" "sint (a :: int64) < 2 ^ 63"
  using sint_ge [of a] sint_lt [of a] by simp_all


lemma sint_eq_iff64: "(sint (a :: int64) = sint b) = (a = b)"
  by (rule word_eq_iff_signed [symmetric])

lemma sint_sec_mono:
  assumes "hasMonotonic t" "wall_sec t < 2 ^ 33"
  shows "sint (sec t) = 59453308800 + int (wall_sec t)"
proof -
  have w: "sint (of_nat (wall_sec t) :: int64) = int (wall_sec t)"
    using assms(2) by (rule sint_of_nat33)
  have "int (wall_sec t) < 2 ^ 33"
    using assms(2) by (metis of_nat_less_iff of_nat_numeral of_nat_power)
  then have "sint (wallToInternal + of_nat (wall_sec t)) = sint wallToInternal + int (wall_sec t)"
    using w by (subst sint_add_exact) (simp_all add: wallToInternal_def)
  then show ?thesis
    using assms(1) by (simp add: sec_def wallToInternal_def)
qed

lemma Unix_unwrapped:
  assumes "unwrapped t"
  shows "Unix t = sint (sec t) - 62135596800"
proof -
  have "sint (sec t + internalToUnix) = sint (sec t) + sint internalToUnix"
    using assms sint_bounds [of "sec t"]
    by (subst sint_add_exact) (simp_all add: unwrapped_def internalToUnix_def unixToInternal_def)
  then show ?thesis
    by (simp add: Unix_def unixSec_def internalToUnix_def unixToInternal_def)
qed


lemma sint_minus_432000: "sint (- 432000 :: int64) = - 432000"
  by simp

lemma addSec_packed:
  assumes "hasMonotonic t" "wall_sec t < 2 ^ 33" "432000 \<le> wall_sec t"
  shows "addSec t (- 432000) = t\<lparr>wall_sec := wall_sec t - 432000\<rparr>"
proof -
  have w: "sint (of_nat (wall_sec t) :: int64) = int (wall_sec t)"
    using assms(2) by (rule sint_of_nat33)
  have lt: "int (wall_sec t) < 2 ^ 33"
    using assms(2) by (metis of_nat_less_iff of_nat_numeral of_nat_power)
  have s: "sint (of_nat (wall_sec t) + (- 432000) :: int64) = int (wall_sec t) - 432000"
    using w lt by (subst sint_add_exact) simp_all
  have "(of_nat (wall_sec t) + (- 432000) :: int64) = of_nat (wall_sec t - 432000)"
    using assms(3) by (simp add: of_nat_diff)
  moreover have "wall_sec t - 432000 < 2 ^ 64"
    using assms(2) by simp
  ultimately have u: "unat (of_nat (wall_sec t) + (- 432000) :: int64) = wall_sec t - 432000"
    by (simp add: unsigned_of_nat take_bit_nat_eq_self)
  show ?thesis
    unfolding addSec_def Let_def using assms(1,3) lt s u by simp
qed

lemma addSec_unpacked:
  assumes "\<not> (hasMonotonic t \<and> 432000 \<le> wall_sec t)" "wall_sec t < 2 ^ 33"
    and "- (2 ^ 63) + 432000 \<le> sint (sec t)"
  shows "addSec t (- 432000) = (stripMono t)\<lparr>ext := sec t + (- 432000)\<rparr>"
    and "sint (sec t + (- 432000)) = sint (sec t) - 432000"
proof -
  show e: "sint (sec t + (- 432000)) = sint (sec t) - 432000"
    using assms(3) sint_bounds [of "sec t"] by (subst sint_add_exact) simp_all
  have x: "ext (stripMono t) = sec t"
    by (simp add: stripMono_def sec_def)
  have c: "\<not> (hasMonotonic t \<and> 0 \<le> sint (of_nat (wall_sec t) + (- 432000) :: int64))"
  proof (cases "hasMonotonic t")
    case True
    with assms(1) have lt: "wall_sec t < 432000" by simp
    have w: "sint (of_nat (wall_sec t) :: int64) = int (wall_sec t)"
      using assms(2) by (rule sint_of_nat33)
    have "sint (of_nat (wall_sec t) + (- 432000) :: int64) = int (wall_sec t) - 432000"
      using w lt by (subst sint_add_exact) simp_all
    with lt show ?thesis by simp
  qed simp
  show "addSec t (- 432000) = (stripMono t)\<lparr>ext := sec t + (- 432000)\<rparr>"
    unfolding addSec_def Let_def using c e x by auto
qed


lemma Add_five_days_start:
  assumes "wall_nsec now < 1000000000"
  shows "Add now (- 432000000000000) =
     (let t = addSec now (- 432000) in
      if hasMonotonic t then
        (if sint (ext t) < sint (ext t + - 432000000000000) then stripMono t
         else t\<lparr>ext := ext t + - 432000000000000\<rparr>)
      else t)"
proof -
  have "now\<lparr>wall_nsec := wall_nsec now\<rparr> = now"
    by simp
  then show ?thesis
    using assms unfolding Add_def five_days Let_def nsec_def by simp
qed

lemma Add_five_days:
  assumes "well_formed now" "unwrapped now"
  shows "sint (sec (Add now (- 432000000000000))) = sint (sec now) - 432000"
    and "nsec (Add now (- 432000000000000)) = nsec now"
    and "hasMonotonic (Add now (- 432000000000000)) = mono_survives now"
    and "mono_survives now \<Longrightarrow>
         sint (ext (Add now (- 432000000000000))) = sint (ext now) - 432000000000000"
proof -
  let ?d = "- 432000000000000 :: int64"
  from assms(1) have n: "wall_nsec now < 1000000000" and w: "wall_sec now < 2 ^ 33"
    by (simp_all add: well_formed_def)
  note start = Add_five_days_start [OF n]
  have te: "sint (ext now + ?d) = sint (ext now) - 432000000000000"
    if "- (2 ^ 63) \<le> sint (ext now) - 432000000000000"
    using that sint_bounds [of "ext now"] by (subst sint_add_exact) (simp_all add: five_days)
  have wrap: "sint (ext now) < sint (ext now + ?d)"
    if "\<not> - (2 ^ 63) \<le> sint (ext now) - 432000000000000"
  proof -
    have "sint (ext now + ?d) = sint (ext now) + sint ?d + 2 ^ 64"
      using that by (intro sint_add_wraps_low) (simp add: five_days)
    then show ?thesis
      by (simp add: five_days)
  qed
  show "sint (sec (Add now ?d)) = sint (sec now) - 432000"
    and "nsec (Add now ?d) = nsec now"
    and "hasMonotonic (Add now ?d) = mono_survives now"
    and "mono_survives now \<Longrightarrow> sint (ext (Add now ?d)) = sint (ext now) - 432000000000000"
  proof -
    consider (packed) "hasMonotonic now" "432000 \<le> wall_sec now"
      | (unpacked) "\<not> (hasMonotonic now \<and> 432000 \<le> wall_sec now)"
      by blast
    then have "sint (sec (Add now ?d)) = sint (sec now) - 432000 \<and>
      nsec (Add now ?d) = nsec now \<and>
      hasMonotonic (Add now ?d) = mono_survives now \<and>
      (mono_survives now \<longrightarrow> sint (ext (Add now ?d)) = sint (ext now) - 432000000000000)"
    proof cases
      case packed
      note a = addSec_packed [OF packed(1) w packed(2)]
      have w': "wall_sec now - 432000 < 2 ^ 33"
        using w by simp
      have s: "sint (sec (now\<lparr>wall_sec := wall_sec now - 432000\<rparr>)) = sint (sec now) - 432000"
        using packed w w'
        by (simp add: sint_sec_mono of_nat_diff)
      show ?thesis
      proof (cases "- (2 ^ 63) \<le> sint (ext now) - 432000000000000")
        case True
        then have "\<not> sint (ext now) < sint (ext now + ?d)"
          using te by simp
        then show ?thesis
          using packed True s te
          by (simp add: start a mono_survives_def sec_def nsec_def)
      next
        case False
        then show ?thesis
          using packed s wrap
          by (simp add: start a mono_survives_def stripMono_def sec_def nsec_def)
      qed
    next
      case unpacked
      have lo: "- (2 ^ 63) + 432000 \<le> sint (sec now)"
        using assms(2) by (simp add: unwrapped_def)
      note a = addSec_unpacked [OF unpacked w lo]
      show ?thesis
        using unpacked a(2)
        by (auto simp: start a(1) mono_survives_def stripMono_def sec_def nsec_def)
    qed
    then show "sint (sec (Add now ?d)) = sint (sec now) - 432000"
      and "nsec (Add now ?d) = nsec now"
      and "hasMonotonic (Add now ?d) = mono_survives now"
      and "mono_survives now \<Longrightarrow> sint (ext (Add now ?d)) = sint (ext now) - 432000000000000"
      by blast+
  qed
qed


lemma lexicographic_nanos:
  fixes s s' :: int and n n' :: nat
  assumes "n < 1000000000" "n' < 1000000000"
  shows "(s < s' - 432000 \<or> s = s' - 432000 \<and> n < n') =
         (432000000000000 < (s' * 1000000000 + int n') - (s * 1000000000 + int n))"
proof -
  define x where "x = s' - s - 432000"
  have s': "s' = s + 432000 + x"
    by (simp add: x_def)
  consider "x \<le> - 1" | "x = 0" | "1 \<le> x"
    by linarith
  then show ?thesis
  proof cases
    case 1
    then have "x * 1000000000 \<le> - 1000000000"
      by simp
    with 1 assms show ?thesis
      unfolding s' by (simp add: algebra_simps)
  next
    case 2
    with assms show ?thesis
      unfolding s' by simp
  next
    case 3
    then have "1000000000 \<le> x * 1000000000"
      by simp
    with 3 assms show ?thesis
      unfolding s' by (simp add: algebra_simps)
  qed
qed

lemma Before_432000s:
  assumes "well_formed ts" "unwrapped ts" "well_formed now" "unwrapped now"
  shows "Before ts (Add now (- 432000000000000)) = older ts now"
proof -
  let ?u = "Add now (- 432000000000000)"
  note u = Add_five_days [OF assms(3,4)]
  show ?thesis
  proof (cases "hasMonotonic ts \<and> mono_survives now")
    case True
    then show ?thesis
      using u(3,4) by (auto simp: Before_def older_def)
  next
    case False
    have n: "nsec ts < 1000000000" "nsec now < 1000000000"
      using assms(1,3) by (simp_all add: well_formed_def nsec_def)
    have "(sec ts = sec ?u) = (sint (sec ts) = sint (sec now) - 432000)"
      using u(1) by (simp add: sint_eq_iff64 [symmetric])
    then have "Before ts ?u =
        (sint (sec ts) < sint (sec now) - 432000 \<or>
         sint (sec ts) = sint (sec now) - 432000 \<and> nsec ts < nsec now)"
      using False u(1,2,3) by (auto simp: Before_def)
    also have "\<dots> = (432000000000000 < unix_nanos now - unix_nanos ts)"
      using lexicographic_nanos [OF n, of "sint (sec ts)" "sint (sec now)"]
      by (simp add: unix_nanos_def Unix_unwrapped [OF assms(2)] Unix_unwrapped [OF assms(4)]
          algebra_simps)
    finally show ?thesis
      using False by (auto simp: older_def)
  qed
qed


lemma Before_five_days:
  assumes "well_formed ts" "unwrapped ts" "well_formed now" "unwrapped now"
  shows "Before ts (Add now (Hour * 24 * (- 5))) = older ts now"
  unfolding five_days_eq using assms by (rule Before_432000s)

text \<open>
  Claim C3, amended. Let the clock reading and the timestamp, if there is one, be
  well-formed times whose Unix seconds did not wrap around. Then \<^verbatim>\<open>Track\<close> passes to
  \<^verbatim>\<open>send\<close> the endpoint name \<open>import\<close> exactly when the event has a timestamp and
  that timestamp lies more than five days (432000000000000 nanoseconds) before the
  current time, compared as \<^verbatim>\<open>Time.Before\<close> does: on the monotonic clock when the
  timestamp has a monotonic reading and the one of the clock is still there five days
  earlier, by the Unix time in nanoseconds otherwise. In every other case, and with no
  timestamp, the name is \<open>track\<close>.

  As stated, for every call, the claim fails. The timestamp \<^verbatim>\<open>time.Unix(math.MaxInt64, 0)\<close>
  has wrapped seconds: its Unix time, sent as \<open>time\<close>, is far after the clock's, and yet
  the endpoint is \<open>import\<close>. And a timestamp taken from the clock nine days ago by
  the wall clock, one day ago by the monotonic clock, goes to \<open>track\<close>.
\<close>

theorem Track_endpoint:
  assumes "well_formed (time_Now env)" and "unwrapped (time_Now env)"
    and "\<forall>a. Event.Timestamp e = Some a \<longrightarrow>
           well_formed (deref env a) \<and> unwrapped (deref env a)"
  shows "Track_eventType env e =
     (if \<exists>a. Event.Timestamp e = Some a \<and>
             (if hasMonotonic (deref env a) \<and> mono_survives (time_Now env)
              then 432000000000000 < sint (ext (time_Now env)) - sint (ext (deref env a))
              else 432000000000000 < unix_nanos (time_Now env) - unix_nanos (deref env a))
      then ''import'' else ''track'') \<and>
   Track env m distinctId eventName (Some e) =
     (send env m (Track_eventType env e) (Track_params env m distinctId eventName e)
        (Event.IP e = []))
     \<lparr>logged := Track_logged env eventName e @
        logged (send env m (Track_eventType env e) (Track_params env m distinctId eventName e)
                  (Event.IP e = []))\<rparr>"
proof -
  have "Track_eventType env e =
     (if \<exists>a. Event.Timestamp e = Some a \<and> older (deref env a) (time_Now env)
      then ''import'' else ''track'')"
  proof (cases "Event.Timestamp e")
    case None
    then show ?thesis by (simp add: Track_eventType_def)
  next
    case (Some a)
    with assms(3) have "well_formed (deref env a)" "unwrapped (deref env a)"
      by simp_all
    then have "Before (deref env a) (Add (time_Now env) (Hour * 24 * (- 5))) =
        older (deref env a) (time_Now env)"
      using assms(1,2) by (rule Before_five_days)
    with Some show ?thesis by (simp add: Track_eventType_def)
  qed
  then show ?thesis
    by (simp add: Track_def Let_def older_def)
qed

text \<open>The times of the scenario, computed.\<close>

lemmas time_run =
  scenario_deref_def scenario_Now_def time_Unix_def Unix_def unixSec_def sec_def nsec_def
  internalToUnix_def unixToInternal_def wallToInternal_def

lemma scenario_Now_sound: "well_formed (time_Now scenario)" "unwrapped (time_Now scenario)"
  by (simp_all add: scenario_simps scenario_Now_def well_formed_def unwrapped_def sec_def
      wallToInternal_def)

lemma scenario_deref_sound:
  "a \<noteq> 3 \<Longrightarrow> well_formed (scenario_deref a) \<and> unwrapped (scenario_deref a)"
  by (simp add: scenario_deref_def time_Unix_def well_formed_def unwrapped_def sec_def
      wallToInternal_def unixToInternal_def)

theorem Track_endpoint_witness:
  "Track_eventType scenario \<lparr>Event.IP = [], Event.Timestamp = Some 1, Event.Properties = None\<rparr> = ''import'' \<and>
   Track_eventType scenario \<lparr>Event.IP = [], Event.Timestamp = Some 2, Event.Properties = None\<rparr> = ''track'' \<and>
   Track_eventType scenario \<lparr>Event.IP = [], Event.Timestamp = None, Event.Properties = None\<rparr> = ''track''"
proof -
  have s: "\<forall>a. Event.Timestamp \<lparr>Event.IP = [], Event.Timestamp = t, Event.Properties = None\<rparr> = Some a \<longrightarrow>
      well_formed (deref scenario a) \<and> unwrapped (deref scenario a)"
    if "t \<noteq> Some 3" for t
    using that by (auto simp: scenario_simps scenario_deref_sound)
  have t: "Some 1 \<noteq> Some (3::nat)" "Some 2 \<noteq> Some (3::nat)" "None \<noteq> Some (3::nat)"
    by simp_all
  show ?thesis
    using Track_endpoint [OF scenario_Now_sound s [OF t(1)]]
      Track_endpoint [OF scenario_Now_sound s [OF t(2)]]
      Track_endpoint [OF scenario_Now_sound s [OF t(3)]]
    by (simp add: scenario_simps unix_nanos_def mono_survives_def time_run)
qed

theorem Track_endpoint_counterexample:
  "Unix (time_Now scenario) = 1457568000 \<and>
   Unix (deref scenario 3) = 9223372036854775807 \<and>
   fmlookup (Track_props scenario mp ''a''
       \<lparr>Event.IP = [], Event.Timestamp = Some 3, Event.Properties = None\<rparr>) ''time'' =
     Some (VInt64 9223372036854775807) \<and>
   Track_eventType scenario
       \<lparr>Event.IP = [], Event.Timestamp = Some 3, Event.Properties = None\<rparr> = ''import'' \<and>
   Unix (deref scenario 4) = 1456790400 \<and>
   Track_eventType scenario
       \<lparr>Event.IP = [], Event.Timestamp = Some 4, Event.Properties = None\<rparr> = ''track''"
  by (simp add: scenario_simps Track_props_def Track_eventType_def Let_def time_run
      Before_def Add_def addSec_def stripMono_def Hour_def signed_divide_int_def
      signed_modulo_int_def)

section \<open>The parameter maps of Track and Update\<close>

text \<open>
  Claim C2, amended. For every \<^verbatim>\<open>Update\<close> call whose operation name is neither
  \<open>$time\<close> nor \<open>$ignore_time\<close>, the parameter map sent to \<open>engage\<close> follows the
  timestamp in three ways: for the \<^verbatim>\<open>IgnoreTime\<close> pointer it holds \<open>$ignore_time\<close> = true
  and no \<open>$time\<close>; for any other non-nil pointer it holds \<open>$time\<close>, the Unix seconds
  of the time pointed to, and no \<open>$ignore_time\<close>; for nil it holds neither key.

  As stated, for every call, the claim fails: the entry of the operation name is written
  last, so the operation \<open>$time\<close> puts a \<open>$time\<close> key into the map of a call with
  \<^verbatim>\<open>IgnoreTime\<close>, and the operation \<open>$ignore_time\<close> replaces true by the property map.
\<close>

theorem Update_timestamp_branch:
  assumes "Operation u \<noteq> ''$time''" and "Operation u \<noteq> ''$ignore_time''"
  shows "Update env m distinctId (Some u) =
       send env m ''engage'' (VMap (Some (Update_params env m distinctId u))) (Update.IP u = []) \<and>
     (Update.Timestamp u = IgnoreTime \<longrightarrow>
        fmlookup (Update_params env m distinctId u) ''$ignore_time'' = Some (VBool True) \<and>
        fmlookup (Update_params env m distinctId u) ''$time'' = None) \<and>
     (\<forall>a. Update.Timestamp u = Some a \<and> Some a \<noteq> IgnoreTime \<longrightarrow>
        fmlookup (Update_params env m distinctId u) ''$time'' = Some (VInt64 (Unix (deref env a))) \<and>
        fmlookup (Update_params env m distinctId u) ''$ignore_time'' = None) \<and>
     (Update.Timestamp u = None \<longrightarrow>
        fmlookup (Update_params env m distinctId u) ''$ignore_time'' = None \<and>
        fmlookup (Update_params env m distinctId u) ''$time'' = None)"
  using assms
  by (auto simp: Update_def Update_params_def Let_def IgnoreTime_def split: option.splits)

theorem Update_timestamp_branch_witness:
  "fmlookup (Update_params scenario (NewFromClient None ''t'' ''k'' ''s'' []) ''a''
      \<lparr>IP = [], Timestamp = IgnoreTime, Operation = ''$set'', Properties = None\<rparr>)
     ''$ignore_time'' = Some (VBool True) \<and>
   fmlookup (Update_params scenario (NewFromClient None ''t'' ''k'' ''s'' []) ''a''
      \<lparr>IP = [], Timestamp = IgnoreTime, Operation = ''$set'', Properties = None\<rparr>)
     ''$time'' = None \<and>
   fmlookup (Update_params scenario (NewFromClient None ''t'' ''k'' ''s'' []) ''a''
      \<lparr>IP = [], Timestamp = Some 1, Operation = ''$set'', Properties = None\<rparr>)
     ''$time'' = Some (VInt64 1457014673) \<and>
   fmlookup (Update_params scenario (NewFromClient None ''t'' ''k'' ''s'' []) ''a''
      \<lparr>IP = [], Timestamp = None, Operation = ''$set'', Properties = None\<rparr>)
     ''$time'' = None \<and>
   fmlookup (Update_params scenario (NewFromClient None ''t'' ''k'' ''s'' []) ''a''
      \<lparr>IP = [], Timestamp = None, Operation = ''$set'', Properties = None\<rparr>)
     ''$ignore_time'' = None"
  using Update_timestamp_branch [of "\<lparr>IP = [], Timestamp = IgnoreTime, Operation = ''$set'', Properties = None\<rparr>"
      scenario "NewFromClient None ''t'' ''k'' ''s'' []" "''a''"]
    Update_timestamp_branch [of "\<lparr>IP = [], Timestamp = Some 1, Operation = ''$set'', Properties = None\<rparr>"
      scenario "NewFromClient None ''t'' ''k'' ''s'' []" "''a''"]
    Update_timestamp_branch [of "\<lparr>IP = [], Timestamp = None, Operation = ''$set'', Properties = None\<rparr>"
      scenario "NewFromClient None ''t'' ''k'' ''s'' []" "''a''"]
  by (simp add: IgnoreTime_def scenario_simps scenario_Unix)

theorem Update_timestamp_branch_counterexample:
  "Update.Timestamp \<lparr>IP = [], Timestamp = IgnoreTime, Operation = ''$time'', Properties = None\<rparr> =
     IgnoreTime \<and>
   fmlookup (Update_params scenario (NewFromClient None ''t'' ''k'' ''s'' []) ''a''
      \<lparr>IP = [], Timestamp = IgnoreTime, Operation = ''$time'', Properties = None\<rparr>)
     ''$time'' = Some (VMap None) \<and>
   fmlookup (Update_params scenario (NewFromClient None ''t'' ''k'' ''s'' []) ''a''
      \<lparr>IP = [], Timestamp = IgnoreTime, Operation = ''$ignore_time'',
       Properties = Some (fmupd ''plan'' (VString ''pro'') fmempty)\<rparr>)
     ''$ignore_time'' = Some (VMap (Some (fmupd ''plan'' (VString ''pro'') fmempty)))"
  by (simp add: Update_params_def Let_def IgnoreTime_def)

text \<open>
  Claim C9. In \<^verbatim>\<open>Track\<close> the custom properties are merged after the reserved keys
  are set, so every custom property is in the outgoing property map with its own value,
  also one named \<open>token\<close>, \<open>distinct_id\<close>, \<open>ip\<close> or \<open>time\<close>. In \<^verbatim>\<open>Update\<close>
  the entry of the operation name is set last, so it always holds the property map, also
  when the name is \<open>$token\<close>, \<open>$distinct_id\<close>, \<open>$ip\<close>, \<open>$time\<close> or
  \<open>$ignore_time\<close>.
\<close>

theorem reserved_keys_replaced:
  "(\<forall>custom k v. Event.Properties e = Some custom \<and> fmlookup custom k = Some v \<longrightarrow>
      fmlookup (Track_props env m distinctId e) k = Some v) \<and>
   Track env m distinctId eventName (Some e) =
     (send env m (Track_eventType env e)
        (VMap (Some (fmupd ''properties'' (VMap (Some (Track_props env m distinctId e)))
                      (fmupd ''event'' (VString eventName) fmempty))))
        (Event.IP e = []))
     \<lparr>logged := Track_logged env eventName e @
        logged (send env m (Track_eventType env e)
          (VMap (Some (fmupd ''properties'' (VMap (Some (Track_props env m distinctId e)))
                        (fmupd ''event'' (VString eventName) fmempty))))
          (Event.IP e = []))\<rparr> \<and>
   fmlookup (Update_params env m distinctId' u) (Operation u) = Some (VMap (Update.Properties u)) \<and>
   Update env m distinctId' (Some u) =
     send env m ''engage'' (VMap (Some (Update_params env m distinctId' u))) (Update.IP u = [])"
  by (auto simp: Track_props_def Track_def Track_params_def Update_def Update_params_def Let_def
      fmdom_notD split: option.splits)

theorem reserved_keys_replaced_witness:
  "fmlookup (Track_props scenario (NewFromClient None ''t'' ''k'' ''s'' []) ''a''
      \<lparr>Event.IP = ''1.2.3.4'', Event.Timestamp = Some 1,
       Event.Properties = Some (fmupd ''token'' (VString ''other'')
                                 (fmupd ''time'' (VString ''noon'') fmempty))\<rparr>)
     ''token'' = Some (VString ''other'') \<and>
   fmlookup (Track_props scenario (NewFromClient None ''t'' ''k'' ''s'' []) ''a''
      \<lparr>Event.IP = ''1.2.3.4'', Event.Timestamp = Some 1,
       Event.Properties = Some (fmupd ''token'' (VString ''other'')
                                 (fmupd ''time'' (VString ''noon'') fmempty))\<rparr>)
     ''time'' = Some (VString ''noon'') \<and>
   fmlookup (Update_params scenario (NewFromClient None ''t'' ''k'' ''s'' []) ''a''
      \<lparr>IP = [], Timestamp = None, Operation = ''$token'', Properties = None\<rparr>)
     ''$token'' = Some (VMap None)"
  using reserved_keys_replaced
    [where e = "\<lparr>Event.IP = ''1.2.3.4'', Event.Timestamp = Some 1,
       Event.Properties = Some (fmupd ''token'' (VString ''other'')
                                 (fmupd ''time'' (VString ''noon'') fmempty))\<rparr>"
      and env = scenario and m = "NewFromClient None ''t'' ''k'' ''s'' []" and distinctId = "''a''"
      and distinctId' = "''a''"
      and u = "\<lparr>IP = [], Timestamp = None, Operation = ''$token'', Properties = None\<rparr>"]
  by simp

section \<open>The request URL\<close>

lemma reqUrl_shape:
  "reqUrl m eventType data autoGeolocate =
     ApiURL m @ ''/'' @ eventType @ ''?data='' @ EncodeToString data @
     (if autoGeolocate then ''&ip=1'' else []) @ ''&verbose=1''"
  by (simp add: reqUrl_def to64_def Let_def)

lemma send_issued:
  assumes "req \<in> set (issued (send env m eventType params autoGeolocate))"
  shows "\<exists>data. json_Marshal env params = Inr data \<and>
           ReqURL req = reqUrl m eventType data autoGeolocate \<and> Method req = ''POST''"
  using assms
  by (auto simp: send_def Let_def http_NewRequest_def SetBasicAuth_def
      split: sum.splits option.splits if_splits)

lemma send_error_URL:
  assumes "json_Marshal env params = Inr data"
    and "outcome (send env m eventType params autoGeolocate) = Returns (Some (MpError e))"
  shows "URL e = reqUrl m eventType data autoGeolocate"
  using assms
  by (auto simp: send_def Let_def wrapErr_def serverErr_fields
      split: sum.splits option.splits if_splits)

text \<open>
  Claim C6. Whenever \<^verbatim>\<open>send\<close> gets to compose a request URL (the parameter map was
  marshalled), that URL, which every request issued and every \<^verbatim>\<open>MixpanelError\<close>
  returned carries, is the base URL, \<open>/\<close>, the endpoint name, \<open>?data=\<close> and the base64
  text of the marshalled bytes, then \<open>&ip=1\<close> exactly when auto-geolocation was asked
  for, then \<open>&verbose=1\<close> in every case. The base64 text is that of the standard
  encoding: its characters are in the standard alphabet or are the padding \<open>=\<close>, and
  it is padded to four characters for every three bytes begun.
\<close>

theorem send_url_composition:
  assumes "json_Marshal env params = Inr data"
  shows "(\<forall>req \<in> set (issued (send env m eventType params autoGeolocate)).
            Method req = ''POST'' \<and>
            ReqURL req = ApiURL m @ ''/'' @ eventType @ ''?data='' @ EncodeToString data @
              (if autoGeolocate then ''&ip=1'' else []) @ ''&verbose=1'') \<and>
         (\<forall>e. outcome (send env m eventType params autoGeolocate) = Returns (Some (MpError e)) \<longrightarrow>
            URL e = ApiURL m @ ''/'' @ eventType @ ''?data='' @ EncodeToString data @
              (if autoGeolocate then ''&ip=1'' else []) @ ''&verbose=1'') \<and>
         to64 m data = EncodeToString data \<and>
         set (EncodeToString data) \<subseteq>
           set ''ABCDEFGHIJKLMNOPQRSTUVWXYZabcdefghijklmnopqrstuvwxyz0123456789+/'' \<union> {CHR ''=''} \<and>
         length (EncodeToString data) = 4 * ((length data + 2) div 3)"
proof -
  have "Method req = ''POST'' \<and> ReqURL req = reqUrl m eventType data autoGeolocate"
    if "req \<in> set (issued (send env m eventType params autoGeolocate))" for req
    using send_issued [OF that] assms by auto
  moreover have "URL e = reqUrl m eventType data autoGeolocate"
    if "outcome (send env m eventType params autoGeolocate) = Returns (Some (MpError e))" for e
    using send_error_URL [OF assms that] .
  moreover have "set (EncodeToString data) \<subseteq>
      set ''ABCDEFGHIJKLMNOPQRSTUVWXYZabcdefghijklmnopqrstuvwxyz0123456789+/'' \<union> {CHR ''=''}"
    using set_EncodeToString [of data] by (simp only: encodeStd_def StdPadding_def)
  ultimately show ?thesis
    by (simp only: reqUrl_shape length_EncodeToString to64_def) blast
qed


section \<open>The scenario, run\<close>

lemma mp_fields:
  "Client mp = Some (answering accepted)" "Token mp = ''t''" "ApiSecret mp = ''s''"
  "ApiURL mp = ''https://api.mixpanel.com''"
  "Client mp_proxy = Some (answering accepted)" "Token mp_proxy = ''t''" "ApiSecret mp_proxy = ''s''"
  "ApiURL mp_proxy = ''https://proxy.example.com/forward?ip=1&to=''"
  by (simp_all add: mp_def mp_proxy_def NewFromClient_def proxy_base_def)

lemma scenario_base64:
  "EncodeToString alias_json = ''eyJldmVudCI6IiRjcmVhdGVfYWxpYXMiLCJwcm9wZXJ0aWVzIjp7ImFsaWFzIjoiYiIsImRpc3RpbmN0X2lkIjoiYSIsInRva2VuIjoidCJ9fQ==''"
  "EncodeToString track_json = ''eyJldmVudCI6IlNpZ24gSW4iLCJwcm9wZXJ0aWVzIjp7ImRpc3RpbmN0X2lkIjoiYSIsImZyb20iOiJlbWFpbCIsInRva2VuIjoidCJ9fQ==''"
  "EncodeToString update_json = ''eyIkZGlzdGluY3RfaWQiOiJhIiwiJGlnbm9yZV90aW1lIjp0cnVlLCIkc2V0Ijp7ImN1c3RvbV9maWVsZCI6ImNvb2whIn0sIiR0b2tlbiI6InQifQ==''"
  by (simp_all add: alias_json_def track_json_def update_json_def encode_def encodeStd_def
      StdPadding_def)

lemma scenario_params:
  "Token m = ''t'' \<Longrightarrow> Alias_params m ''a'' ''b'' = alias_value"
  "Token m = ''t'' \<Longrightarrow> Track_params scenario m ''a'' ''Sign In'' sign_in = track_value"
  "Token m = ''t'' \<Longrightarrow> VMap (Some (Update_params scenario m ''a'' set_update)) = update_value"
  by (simp_all add: Alias_params_def alias_value_def Track_params_def Track_props_def
      track_value_def sign_in_def Update_params_def update_value_def set_update_def Let_def)

lemma scenario_Marshal_values:
  "scenario_Marshal alias_value = Inr alias_json"
  "scenario_Marshal track_value = Inr track_json"
  "scenario_Marshal update_value = Inr update_json"
  by (simp_all add: scenario_Marshal_def entry_def alias_value_def track_value_def
      update_value_def)

lemma scenario_marshalled:
  "json_Marshal scenario alias_value = Inr alias_json"
  "json_Marshal scenario track_value = Inr track_json"
  "json_Marshal scenario update_value = Inr update_json"
  by (simp_all add: scenario_simps scenario_Marshal_values)


lemma scenario_calls:
  "Event.IP sign_in = []" "Track_eventType scenario sign_in = ''track''"
  "Update.IP set_update = []"
  by (simp_all add: sign_in_def set_update_def Track_eventType_def)

lemmas scenario_run =
  send_def Let_def http_NewRequest_def scenario_simps scenario_url_error_def reqUrl_shape
  scenario_base64 scenario_params scenario_Marshal_values mp_fields answering_def accepted_def
  SetBasicAuth_def

lemma scenario_issued:
  "issued (Alias scenario mp ''a'' ''b'') =
     [\<lparr>Method = ''POST'',
        ReqURL = ''https://api.mixpanel.com/track?data=eyJldmVudCI6IiRjcmVhdGVfYWxpYXMiLCJwcm9wZXJ0aWVzIjp7ImFsaWFzIjoiYiIsImRpc3RpbmN0X2lkIjoiYSIsInRva2VuIjoidCJ9fQ==&verbose=1'',
        BasicAuth = Some (''YOUR_API_SECRET'', ''s'')\<rparr>]"
  "issued (Track scenario mp ''a'' ''Sign In'' (Some sign_in)) =
     [\<lparr>Method = ''POST'',
        ReqURL = ''https://api.mixpanel.com/track?data=eyJldmVudCI6IlNpZ24gSW4iLCJwcm9wZXJ0aWVzIjp7ImRpc3RpbmN0X2lkIjoiYSIsImZyb20iOiJlbWFpbCIsInRva2VuIjoidCJ9fQ==&ip=1&verbose=1'',
        BasicAuth = Some (''YOUR_API_SECRET'', ''s'')\<rparr>]"
  "issued (Update scenario mp ''a'' (Some set_update)) =
     [\<lparr>Method = ''POST'',
        ReqURL = ''https://api.mixpanel.com/engage?data=eyIkZGlzdGluY3RfaWQiOiJhIiwiJGlnbm9yZV90aW1lIjp0cnVlLCIkc2V0Ijp7ImN1c3RvbV9maWVsZCI6ImNvb2whIn0sIiR0b2tlbiI6InQifQ==&ip=1&verbose=1'',
        BasicAuth = Some (''YOUR_API_SECRET'', ''s'')\<rparr>]"
  "issued (Alias scenario mp_proxy ''a'' ''b'') =
     [\<lparr>Method = ''POST'',
        ReqURL = ''https://proxy.example.com/forward?ip=1&to=/track?data=eyJldmVudCI6IiRjcmVhdGVfYWxpYXMiLCJwcm9wZXJ0aWVzIjp7ImFsaWFzIjoiYiIsImRpc3RpbmN0X2lkIjoiYSIsInRva2VuIjoidCJ9fQ==&verbose=1'',
        BasicAuth = Some (''YOUR_API_SECRET'', ''s'')\<rparr>]"
  by (simp_all add: Alias_def Track_def Update_def scenario_run scenario_calls)

text \<open>Claim C6 in the scenario: the \<open>$set\<close> update and the alias.\<close>

theorem send_url_composition_witness:
  "issued (Update scenario mp ''a'' (Some set_update)) =
     [\<lparr>Method = ''POST'',
        ReqURL = ''https://api.mixpanel.com/engage?data=eyIkZGlzdGluY3RfaWQiOiJhIiwiJGlnbm9yZV90aW1lIjp0cnVlLCIkc2V0Ijp7ImN1c3RvbV9maWVsZCI6ImNvb2whIn0sIiR0b2tlbiI6InQifQ==&ip=1&verbose=1'',
        BasicAuth = Some (''YOUR_API_SECRET'', ''s'')\<rparr>] \<and>
   issued (Alias scenario mp ''a'' ''b'') =
     [\<lparr>Method = ''POST'',
        ReqURL = ''https://api.mixpanel.com/track?data=eyJldmVudCI6IiRjcmVhdGVfYWxpYXMiLCJwcm9wZXJ0aWVzIjp7ImFsaWFzIjoiYiIsImRpc3RpbmN0X2lkIjoiYSIsInRva2VuIjoidCJ9fQ==&verbose=1'',
        BasicAuth = Some (''YOUR_API_SECRET'', ''s'')\<rparr>]"
  using send_url_composition [OF scenario_marshalled(3), of mp "''engage''" True]
    send_url_composition [OF scenario_marshalled(1), of mp "''track''" False]
  by (simp add: scenario_issued)

section \<open>The query of the requests issued\<close>

lemma Track_eventType_endpoint:
  "Track_eventType env e \<in> {''track'', ''import'', ''engage''}"
  by (simp add: Track_eventType_def split: option.splits)

lemma issued_Track:
  "issued (Track env m distinctId eventName (Some e)) =
     issued (send env m (Track_eventType env e) (Track_params env m distinctId eventName e)
               (Event.IP e = []))"
  by (simp add: Track_def Let_def)

text \<open>
  Claim C4, amended. Provided the base URL has no query and no fragment of its own (it
  holds neither \<open>?\<close> nor \<open>#\<close>): the URL of a request issued by \<^verbatim>\<open>Track\<close> or
  \<^verbatim>\<open>Update\<close> has the query fragment \<open>ip=1\<close> exactly when the IP field of the call is
  empty, and the URL of a request issued by \<^verbatim>\<open>Alias\<close> never has it.

  As stated, for every call, the claim fails: the base URL is prepended as it is, so one
  that brings \<open>ip=1\<close> in its own query shows it in the URL of an \<^verbatim>\<open>Alias\<close> request
  too.
\<close>

theorem ip_flag:
  assumes "plain_base (ApiURL m)"
  shows "(\<forall>req \<in> set (issued (Track env m distinctId eventName (Some e))).
            (''ip=1'' \<in> set (query_fragments (ReqURL req))) = (Event.IP e = [])) \<and>
         (\<forall>req \<in> set (issued (Update env m distinctId (Some u))).
            (''ip=1'' \<in> set (query_fragments (ReqURL req))) = (Update.IP u = [])) \<and>
         (\<forall>req \<in> set (issued (Alias env m distinctId newId)).
            ''ip=1'' \<notin> set (query_fragments (ReqURL req)))"
proof (intro conjI ballI)
  fix req
  assume "req \<in> set (issued (Track env m distinctId eventName (Some e)))"
  then obtain data where "ReqURL req = reqUrl m (Track_eventType env e) data (Event.IP e = [])"
    unfolding issued_Track by (blast dest: send_issued)
  then show "(''ip=1'' \<in> set (query_fragments (ReqURL req))) = (Event.IP e = [])"
    by (simp only: ip_fragment_reqUrl [OF assms Track_eventType_endpoint])
next
  fix req
  assume "req \<in> set (issued (Update env m distinctId (Some u)))"
  then obtain data where "ReqURL req = reqUrl m ''engage'' data (Update.IP u = [])"
    by (auto simp: Update_def Let_def dest: send_issued)
  moreover have "''engage'' \<in> {''track'', ''import'', ''engage''}"
    by simp
  ultimately show "(''ip=1'' \<in> set (query_fragments (ReqURL req))) = (Update.IP u = [])"
    by (simp only: ip_fragment_reqUrl [OF assms])
next
  fix req
  assume "req \<in> set (issued (Alias env m distinctId newId))"
  then obtain data where "ReqURL req = reqUrl m ''track'' data False"
    by (auto simp: Alias_def dest: send_issued)
  moreover have "''track'' \<in> {''track'', ''import'', ''engage''}"
    by simp
  ultimately show "''ip=1'' \<notin> set (query_fragments (ReqURL req))"
    by (simp only: ip_fragment_reqUrl [OF assms]) simp
qed


lemma plain_base_mp: "plain_base (ApiURL mp)"
  by (simp add: plain_base_def mp_fields)

theorem ip_flag_witness:
  "issued (Track scenario mp ''a'' ''Sign In'' (Some sign_in)) =
     [\<lparr>Method = ''POST'',
        ReqURL = ''https://api.mixpanel.com/track?data=eyJldmVudCI6IlNpZ24gSW4iLCJwcm9wZXJ0aWVzIjp7ImRpc3RpbmN0X2lkIjoiYSIsImZyb20iOiJlbWFpbCIsInRva2VuIjoidCJ9fQ==&ip=1&verbose=1'',
        BasicAuth = Some (''YOUR_API_SECRET'', ''s'')\<rparr>] \<and>
   ''ip=1'' \<in> set (query_fragments
     ''https://api.mixpanel.com/track?data=eyJldmVudCI6IlNpZ24gSW4iLCJwcm9wZXJ0aWVzIjp7ImRpc3RpbmN0X2lkIjoiYSIsImZyb20iOiJlbWFpbCIsInRva2VuIjoidCJ9fQ==&ip=1&verbose=1'') \<and>
   issued (Update scenario mp ''a'' (Some set_update)) =
     [\<lparr>Method = ''POST'',
        ReqURL = ''https://api.mixpanel.com/engage?data=eyIkZGlzdGluY3RfaWQiOiJhIiwiJGlnbm9yZV90aW1lIjp0cnVlLCIkc2V0Ijp7ImN1c3RvbV9maWVsZCI6ImNvb2whIn0sIiR0b2tlbiI6InQifQ==&ip=1&verbose=1'',
        BasicAuth = Some (''YOUR_API_SECRET'', ''s'')\<rparr>] \<and>
   ''ip=1'' \<in> set (query_fragments
     ''https://api.mixpanel.com/engage?data=eyIkZGlzdGluY3RfaWQiOiJhIiwiJGlnbm9yZV90aW1lIjp0cnVlLCIkc2V0Ijp7ImN1c3RvbV9maWVsZCI6ImNvb2whIn0sIiR0b2tlbiI6InQifQ==&ip=1&verbose=1'') \<and>
   issued (Alias scenario mp ''a'' ''b'') =
     [\<lparr>Method = ''POST'',
        ReqURL = ''https://api.mixpanel.com/track?data=eyJldmVudCI6IiRjcmVhdGVfYWxpYXMiLCJwcm9wZXJ0aWVzIjp7ImFsaWFzIjoiYiIsImRpc3RpbmN0X2lkIjoiYSIsInRva2VuIjoidCJ9fQ==&verbose=1'',
        BasicAuth = Some (''YOUR_API_SECRET'', ''s'')\<rparr>] \<and>
   ''ip=1'' \<notin> set (query_fragments
     ''https://api.mixpanel.com/track?data=eyJldmVudCI6IiRjcmVhdGVfYWxpYXMiLCJwcm9wZXJ0aWVzIjp7ImFsaWFzIjoiYiIsImRpc3RpbmN0X2lkIjoiYSIsInRva2VuIjoidCJ9fQ==&verbose=1'')"
  using ip_flag [OF plain_base_mp, of scenario "''a''" "''Sign In''" sign_in set_update "''b''"]
  by (simp add: scenario_issued scenario_calls)

theorem ip_flag_counterexample:
  "issued (Alias scenario mp_proxy ''a'' ''b'') =
     [\<lparr>Method = ''POST'',
        ReqURL = ''https://proxy.example.com/forward?ip=1&to=/track?data=eyJldmVudCI6IiRjcmVhdGVfYWxpYXMiLCJwcm9wZXJ0aWVzIjp7ImFsaWFzIjoiYiIsImRpc3RpbmN0X2lkIjoiYSIsInRva2VuIjoidCJ9fQ==&verbose=1'',
        BasicAuth = Some (''YOUR_API_SECRET'', ''s'')\<rparr>] \<and>
   ''ip=1'' \<in> set (query_fragments
     ''https://proxy.example.com/forward?ip=1&to=/track?data=eyJldmVudCI6IiRjcmVhdGVfYWxpYXMiLCJwcm9wZXJ0aWVzIjp7ImFsaWFzIjoiYiIsImRpc3RpbmN0X2lkIjoiYSIsInRva2VuIjoidCJ9fQ==&verbose=1'')"
  by (simp add: scenario_issued query_fragments_def url_query_def)

end
